(* ===== verification/Prelude.thy ===== *)
theory Prelude
  imports Complex_Main "HOL-Library.Word"
begin

text \<open>
  Shared vocabulary of the development.  Rust's \<open>f32\<close> is modelled by \<open>real\<close>:
  additions, subtractions and comparisons are exact, so the development says
  nothing about rounding or NaN (the frame code never divides, and its inputs are
  pixel coordinates).  The two \<open>f32\<close> constants the code uses,
  \<open>f32::MIN\<close> (the "no pointer" sentinel) and \<open>f32::MAX\<close> (an unbounded
  caption edge), keep their IEEE values.  The collection \<open>rect_simps\<close> gathers
  the coordinate equations of the egui rectangle operations, \<open>frame_defs\<close> the
  unfoldings of the per-frame steps of \<open>CustomFrame::show\<close>.
\<close>

named_theorems rect_simps "coordinate equations of the egui rectangle operations"
named_theorems frame_defs "unfoldings of the steps of CustomFrame::show"

type_synonym f32 = real
type_synonym u8 = "8 word"

definition f32_MAX :: f32 where
  "f32_MAX = (2 ^ 24 - 1) * 2 ^ 104"

definition f32_MIN :: f32 where
  "f32_MIN = - f32_MAX"

lemma f32_MAX_value: "f32_MAX = 340282346638528859811704183484516925440"
  by (simp add: f32_MAX_def)

lemma f32_MAX_pos [simp]: "0 < f32_MAX"
  by (simp add: f32_MAX_def)

lemma f32_MIN_neg [simp]: "f32_MIN < 0"
  by (simp add: f32_MIN_def)

end
