(* ===== verification/Geometry.thy ===== *)
theory Geometry
  imports Prelude
begin

text \<open>
  The part of egui's geometry (\<open>emath\<close>) that \<open>CustomFrame::show\<close> calls:
  \<open>Pos2\<close>, \<open>Vec2\<close>, \<open>Rect\<close> and \<open>Margin\<close> as records, and the operations
  \<open>Rect::from_min_max\<close>, \<open>from_min_size\<close>, \<open>width\<close>, \<open>height\<close>,
  \<open>shrink\<close>, \<open>translate\<close>, \<open>intersect\<close>, \<open>contains\<close>, the edge accessors
  and \<open>Rect - Margin\<close>, each with the body it has in egui.  The lemmas give the
  corners of every derived rectangle (collection \<open>rect_simps\<close>) and the
  membership laws the hit-testing proofs use: membership in an intersection, a
  translated rectangle, a shrunk rectangle and a rectangle minus a margin.
\<close>

record vec2 =
  vx :: f32
  vy :: f32

record pos2 =
  px :: f32
  py :: f32

record rect =
  rmin :: pos2
  rmax :: pos2

record margin =
  mleft :: f32
  mright :: f32
  mtop :: f32
  mbottom :: f32

definition Vec2_new :: "f32 \<Rightarrow> f32 \<Rightarrow> vec2" where
  "Vec2_new x y = \<lparr>vx = x, vy = y\<rparr>"

definition Vec2_ZERO :: vec2 where
  "Vec2_ZERO = Vec2_new 0 0"

definition Vec2_splat :: "f32 \<Rightarrow> vec2" where
  "Vec2_splat v = Vec2_new v v"

definition Pos2_new :: "f32 \<Rightarrow> f32 \<Rightarrow> pos2" where
  "Pos2_new x y = \<lparr>px = x, py = y\<rparr>"

definition Pos2_ZERO :: pos2 where
  "Pos2_ZERO = Pos2_new 0 0"

text \<open>\<open>Pos2 + Vec2\<close>, \<open>Pos2 - Vec2\<close>, \<open>Pos2 - Pos2\<close> and the componentwise
  \<open>Pos2::max\<close> and \<open>Pos2::min\<close>.\<close>

definition pos2_add :: "pos2 \<Rightarrow> vec2 \<Rightarrow> pos2" where
  "pos2_add p v = Pos2_new (px p + vx v) (py p + vy v)"

definition pos2_sub :: "pos2 \<Rightarrow> vec2 \<Rightarrow> pos2" where
  "pos2_sub p v = Pos2_new (px p - vx v) (py p - vy v)"

definition pos2_diff :: "pos2 \<Rightarrow> pos2 \<Rightarrow> vec2" where
  "pos2_diff p q = Vec2_new (px p - px q) (py p - py q)"

definition pos2_max :: "pos2 \<Rightarrow> pos2 \<Rightarrow> pos2" where
  "pos2_max p q = Pos2_new (max (px p) (px q)) (max (py p) (py q))"

definition pos2_min :: "pos2 \<Rightarrow> pos2 \<Rightarrow> pos2" where
  "pos2_min p q = Pos2_new (min (px p) (px q)) (min (py p) (py q))"

definition Rect_from_min_max :: "pos2 \<Rightarrow> pos2 \<Rightarrow> rect" where
  "Rect_from_min_max a b = \<lparr>rmin = a, rmax = b\<rparr>"

definition Rect_from_min_size :: "pos2 \<Rightarrow> vec2 \<Rightarrow> rect" where
  "Rect_from_min_size a s = \<lparr>rmin = a, rmax = pos2_add a s\<rparr>"

definition rect_size :: "rect \<Rightarrow> vec2" where
  "rect_size r = pos2_diff (rmax r) (rmin r)"

definition rect_width :: "rect \<Rightarrow> f32" where
  "rect_width r = px (rmax r) - px (rmin r)"

definition rect_height :: "rect \<Rightarrow> f32" where
  "rect_height r = py (rmax r) - py (rmin r)"

definition rect_left :: "rect \<Rightarrow> f32" where
  "rect_left r = px (rmin r)"

definition rect_right :: "rect \<Rightarrow> f32" where
  "rect_right r = px (rmax r)"

definition rect_top :: "rect \<Rightarrow> f32" where
  "rect_top r = py (rmin r)"

definition rect_bottom :: "rect \<Rightarrow> f32" where
  "rect_bottom r = py (rmax r)"

definition rect_shrink2 :: "rect \<Rightarrow> vec2 \<Rightarrow> rect" where
  "rect_shrink2 r v = Rect_from_min_max (pos2_add (rmin r) v) (pos2_sub (rmax r) v)"

definition rect_shrink :: "rect \<Rightarrow> f32 \<Rightarrow> rect" where
  "rect_shrink r a = rect_shrink2 r (Vec2_splat a)"

definition rect_translate :: "rect \<Rightarrow> vec2 \<Rightarrow> rect" where
  "rect_translate r v = Rect_from_min_size (pos2_add (rmin r) v) (rect_size r)"

definition rect_intersect :: "rect \<Rightarrow> rect \<Rightarrow> rect" where
  "rect_intersect a b = \<lparr>rmin = pos2_max (rmin a) (rmin b), rmax = pos2_min (rmax a) (rmax b)\<rparr>"

definition rect_contains :: "rect \<Rightarrow> pos2 \<Rightarrow> bool" where
  "rect_contains r p \<longleftrightarrow>
     px (rmin r) \<le> px p \<and> px p \<le> px (rmax r) \<and> py (rmin r) \<le> py p \<and> py p \<le> py (rmax r)"

definition Margin_same :: "f32 \<Rightarrow> margin" where
  "Margin_same v = \<lparr>mleft = v, mright = v, mtop = v, mbottom = v\<rparr>"

definition margin_left_top :: "margin \<Rightarrow> vec2" where
  "margin_left_top m = Vec2_new (mleft m) (mtop m)"

definition margin_right_bottom :: "margin \<Rightarrow> vec2" where
  "margin_right_bottom m = Vec2_new (mright m) (mbottom m)"

text \<open>\<open>impl Sub<Margin> for Rect\<close>: the rectangle moved inwards by the margin.\<close>

definition rect_sub_margin :: "rect \<Rightarrow> margin \<Rightarrow> rect" where
  "rect_sub_margin r m =
     Rect_from_min_max (pos2_add (rmin r) (margin_left_top m)) (pos2_sub (rmax r) (margin_right_bottom m))"

text \<open>Comparisons of margins used by the frame's well-formedness and by the
  shadow's fit in the outer margin.\<close>

definition margin_nonneg :: "margin \<Rightarrow> bool" where
  "margin_nonneg m \<longleftrightarrow> 0 \<le> mleft m \<and> 0 \<le> mright m \<and> 0 \<le> mtop m \<and> 0 \<le> mbottom m"

definition margin_within :: "margin \<Rightarrow> margin \<Rightarrow> bool" where
  "margin_within a b \<longleftrightarrow>
     mleft a \<le> mleft b \<and> mright a \<le> mright b \<and> mtop a \<le> mtop b \<and> mbottom a \<le> mbottom b"

subsection \<open>Corners of the derived rectangles\<close>

lemma pos2_coords [simp, rect_simps]:
  "px (Pos2_new x y) = x" "py (Pos2_new x y) = y"
  "px (pos2_add p v) = px p + vx v" "py (pos2_add p v) = py p + vy v"
  "px (pos2_sub p v) = px p - vx v" "py (pos2_sub p v) = py p - vy v"
  "px (pos2_max p q) = max (px p) (px q)" "py (pos2_max p q) = max (py p) (py q)"
  "px (pos2_min p q) = min (px p) (px q)" "py (pos2_min p q) = min (py p) (py q)"
  by (simp_all add: Pos2_new_def pos2_add_def pos2_sub_def pos2_max_def pos2_min_def)

lemma vec2_coords [simp, rect_simps]:
  "vx (Vec2_new x y) = x" "vy (Vec2_new x y) = y"
  "vx (Vec2_splat a) = a" "vy (Vec2_splat a) = a"
  "vx (pos2_diff p q) = px p - px q" "vy (pos2_diff p q) = py p - py q"
  "vx (margin_left_top m) = mleft m" "vy (margin_left_top m) = mtop m"
  "vx (margin_right_bottom m) = mright m" "vy (margin_right_bottom m) = mbottom m"
  by (simp_all add: Vec2_new_def Vec2_splat_def pos2_diff_def margin_left_top_def
      margin_right_bottom_def)

lemma rect_corners [simp, rect_simps]:
  "rmin (Rect_from_min_max a b) = a" "rmax (Rect_from_min_max a b) = b"
  "rmin (Rect_from_min_size a s) = a" "rmax (Rect_from_min_size a s) = pos2_add a s"
  "rmin (rect_intersect r q) = pos2_max (rmin r) (rmin q)"
  "rmax (rect_intersect r q) = pos2_min (rmax r) (rmax q)"
  by (simp_all add: Rect_from_min_max_def Rect_from_min_size_def rect_intersect_def)

text \<open>A translated rectangle keeps its size: both corners move by the offset.\<close>

lemma rect_translate_corners [simp, rect_simps]:
  "px (rmin (rect_translate r v)) = px (rmin r) + vx v"
  "py (rmin (rect_translate r v)) = py (rmin r) + vy v"
  "px (rmax (rect_translate r v)) = px (rmax r) + vx v"
  "py (rmax (rect_translate r v)) = py (rmax r) + vy v"
  by (simp_all add: rect_translate_def rect_size_def)

lemma rect_shrink_corners [simp, rect_simps]:
  "px (rmin (rect_shrink r a)) = px (rmin r) + a"
  "py (rmin (rect_shrink r a)) = py (rmin r) + a"
  "px (rmax (rect_shrink r a)) = px (rmax r) - a"
  "py (rmax (rect_shrink r a)) = py (rmax r) - a"
  by (simp_all add: rect_shrink_def rect_shrink2_def)

lemma rect_sub_margin_corners [simp, rect_simps]:
  "px (rmin (rect_sub_margin r m)) = px (rmin r) + mleft m"
  "py (rmin (rect_sub_margin r m)) = py (rmin r) + mtop m"
  "px (rmax (rect_sub_margin r m)) = px (rmax r) - mright m"
  "py (rmax (rect_sub_margin r m)) = py (rmax r) - mbottom m"
  by (simp_all add: rect_sub_margin_def)

lemma rect_edges [simp, rect_simps]:
  "rect_left r = px (rmin r)" "rect_right r = px (rmax r)"
  "rect_top r = py (rmin r)" "rect_bottom r = py (rmax r)"
  "rect_width r = px (rmax r) - px (rmin r)" "rect_height r = py (rmax r) - py (rmin r)"
  by (simp_all add: rect_left_def rect_right_def rect_top_def rect_bottom_def
      rect_width_def rect_height_def)

lemma margin_same_sides [simp, rect_simps]:
  "mleft (Margin_same v) = v" "mright (Margin_same v) = v"
  "mtop (Margin_same v) = v" "mbottom (Margin_same v) = v"
  by (simp_all add: Margin_same_def)

subsection \<open>Membership laws\<close>

lemma rect_contains_intersect [simp]:
  "rect_contains (rect_intersect a b) p \<longleftrightarrow> rect_contains a p \<and> rect_contains b p"
  by (auto simp: rect_contains_def)

lemma rect_contains_translate:
  "rect_contains (rect_translate r v) p \<longleftrightarrow> rect_contains r (pos2_sub p v)"
  by (auto simp: rect_contains_def)

lemma rect_contains_shrink:
  "rect_contains (rect_shrink r a) p \<longleftrightarrow>
     px (rmin r) + a \<le> px p \<and> px p \<le> px (rmax r) - a \<and>
     py (rmin r) + a \<le> py p \<and> py p \<le> py (rmax r) - a"
  by (simp add: rect_contains_def)

text \<open>With a non-negative margin, \<open>r - m\<close> lies inside \<open>r\<close>.\<close>

lemma rect_contains_sub_margin:
  "margin_nonneg m \<Longrightarrow> rect_contains (rect_sub_margin r m) p \<Longrightarrow> rect_contains r p"
  by (auto simp: rect_contains_def margin_nonneg_def)

text \<open>Rectangles are equal when their four corner coordinates are.\<close>

lemma rect_eq_iff:
  "(r::rect) = q \<longleftrightarrow> px (rmin r) = px (rmin q) \<and> py (rmin r) = py (rmin q) \<and>
                px (rmax r) = px (rmax q) \<and> py (rmax r) = py (rmax q)"
  by (cases r, cases q) (auto intro: pos2.equality)

text \<open>A point outside a rectangle lies strictly beyond one of its four edges.\<close>

lemma not_rect_contains:
  "\<not> rect_contains r p \<longleftrightarrow>
     px p < rect_left r \<or> rect_right r < px p \<or> py p < rect_top r \<or> rect_bottom r < py p"
  by (auto simp: rect_contains_def)

end
