(* ===== verification/Style.thy ===== *)
theory Style
  imports Geometry
begin

text \<open>
  The appearance values: egui's \<open>Color32\<close> (four premultiplied bytes, as
  \<open>8 word\<close>s), \<open>Rounding\<close>, \<open>Shadow\<close> (with \<open>Shadow::margin\<close>, the
  extent egui paints a shadow beyond its rectangle), \<open>Stroke\<close> and
  \<open>Frame\<close> (the panel's visual spec), with the constants and \<open>From<f32>\<close>
  conversions the source uses, and the crate's own \<open>CustomFrame\<close> struct
  (src/src/lib.rs, lines 32--47), its builder methods \<open>sizebox\<close>,
  \<open>caption\<close>, \<open>rounding\<close>, \<open>shadow\<close> (lines 53--76) and its \<open>Default\<close>
  (lines 224--238).  The builders take \<open>self\<close> by value and return it with one
  field replaced: a record update.
\<close>

record color32 =
  c_r :: u8
  c_g :: u8
  c_b :: u8
  c_a :: u8

definition Color32_from_rgba_premultiplied :: "u8 \<Rightarrow> u8 \<Rightarrow> u8 \<Rightarrow> u8 \<Rightarrow> color32" where
  "Color32_from_rgba_premultiplied r g b a = \<lparr>c_r = r, c_g = g, c_b = b, c_a = a\<rparr>"

definition Color32_TRANSPARENT :: color32 where
  "Color32_TRANSPARENT = Color32_from_rgba_premultiplied 0 0 0 0"

definition Color32_from_black_alpha :: "u8 \<Rightarrow> color32" where
  "Color32_from_black_alpha a = Color32_from_rgba_premultiplied 0 0 0 a"

record rounding =
  rnd_nw :: f32
  rnd_ne :: f32
  rnd_sw :: f32
  rnd_se :: f32

definition Rounding_same :: "f32 \<Rightarrow> rounding" where
  "Rounding_same r = \<lparr>rnd_nw = r, rnd_ne = r, rnd_sw = r, rnd_se = r\<rparr>"

definition Rounding_ZERO :: rounding where
  "Rounding_ZERO = Rounding_same 0"

record shadow =
  offset :: vec2
  blur :: f32
  spread :: f32
  color :: color32

definition Shadow_NONE :: shadow where
  "Shadow_NONE = \<lparr>offset = Vec2_ZERO, blur = 0, spread = 0, color = Color32_TRANSPARENT\<rparr>"

text \<open>\<open>Shadow::margin\<close>: how far egui paints a shadow beyond the rectangle it
  shadows, per side; the blur extends it by half its width.\<close>

definition Shadow_margin :: "shadow \<Rightarrow> margin" where
  "Shadow_margin s =
     \<lparr>mleft = spread s + 0.5 * blur s - vx (offset s),
      mright = spread s + 0.5 * blur s + vx (offset s),
      mtop = spread s + 0.5 * blur s - vy (offset s),
      mbottom = spread s + 0.5 * blur s + vy (offset s)\<rparr>"

record stroke =
  stroke_width :: f32
  stroke_color :: color32

definition Stroke_NONE :: stroke where
  "Stroke_NONE = \<lparr>stroke_width = 0, stroke_color = Color32_TRANSPARENT\<rparr>"

text \<open>\<open>egui::Frame\<close>: the visual spec of a painted panel.\<close>

record frame =
  fr_inner_margin :: margin
  fr_outer_margin :: margin
  fr_rounding :: rounding
  fr_shadow :: shadow
  fill :: color32
  fr_stroke :: stroke

subsection \<open>The crate's \<open>CustomFrame\<close>\<close>

record custom_frame =
  sizebox :: margin
  caption :: rect
  inner_margin :: margin
  rounding :: rounding
  shadow :: shadow

definition with_sizebox :: "custom_frame \<Rightarrow> margin \<Rightarrow> custom_frame" where
  "with_sizebox self m = self\<lparr>sizebox := m\<rparr>"

definition with_caption :: "custom_frame \<Rightarrow> rect \<Rightarrow> custom_frame" where
  "with_caption self c = self\<lparr>caption := c\<rparr>"

definition with_rounding :: "custom_frame \<Rightarrow> rounding \<Rightarrow> custom_frame" where
  "with_rounding self r = self\<lparr>rounding := r\<rparr>"

definition with_shadow :: "custom_frame \<Rightarrow> shadow \<Rightarrow> custom_frame" where
  "with_shadow self s = self\<lparr>shadow := s\<rparr>"

text \<open>\<open>impl Default for CustomFrame\<close>: \<open>10.0.into()\<close> is \<open>Margin::same\<close>
  and \<open>Rounding::same\<close> through the \<open>From<f32>\<close> impls.\<close>

definition CustomFrame_default :: custom_frame where
  "CustomFrame_default =
     \<lparr>sizebox = Margin_same 4,
      caption = Rect_from_min_max (Pos2_new 4 4) (Pos2_new f32_MAX 44),
      inner_margin = Margin_same 10,
      rounding = Rounding_same 10,
      shadow = \<lparr>offset = Vec2_ZERO, blur = 18, spread = 2,
                color = Color32_from_black_alpha 0x20\<rparr>\<rparr>"

end
