(* ===== verification/EguiContext.thy ===== *)
theory EguiContext
  imports Style
begin

text \<open>
  The interface between the frame and egui.  \<open>CustomFrame::show\<close> reads the
  frame's input from the context (the viewport's maximized flag, the theme's panel
  fill, the panel's clip rectangle, the pointer's interaction position and which
  widget the pointer started dragging or double-clicked this frame) and writes
  to it only through four calls: \<open>ctx.set_cursor_icon\<close>,
  \<open>ctx.send_viewport_cmd\<close>, \<open>ui.interact\<close> (registering a sensing region
  and receiving its \<open>Response\<close>) and \<open>CentralPanel::show\<close> (painting the
  panel and running the body).  The context is therefore a record of an input
  part, which the frame never writes, and an output part, which the four calls
  extend.  \<open>Id::new(s)\<close> is the hash of \<open>s\<close>; the model keeps \<open>s\<close>.
  The datatypes keep the variants of \<open>CursorIcon\<close>, \<open>ResizeDirection\<close>
  and \<open>ViewportCommand\<close> that the crate and its example use.

  egui decides which widget a drag or a double click belongs to from the
  previous frame's widget rectangles and the pointer's press history; the model
  takes that decision as input (\<open>drag_started_id\<close>, \<open>double_clicked_id\<close>)
  and derives each \<open>Response\<close> from it and the region's \<open>Sense\<close>; the
  theory \<open>EguiInteraction\<close> computes the decision from the previous frame's
  regions.

  The example's content callback adds widgets with \<open>ui.heading\<close> and
  \<open>ui.button\<close>; the output
  records each painted widget, in order, with its text (their layout and
  rasterisation are not modelled), and a button's \<open>clicked()\<close> reads which
  button the pointer clicked, an input like the drag decisions.
\<close>

datatype cursor_icon =
    CursorDefault
  | ResizeEast | ResizeSouthEast | ResizeSouth | ResizeSouthWest
  | ResizeWest | ResizeNorthWest | ResizeNorth | ResizeNorthEast

datatype resize_direction =
    North | South | East | West | NorthEast | SouthEast | NorthWest | SouthWest

datatype viewport_command =
    Close
  | StartDrag
  | BeginResize resize_direction
  | Maximized bool

record sense =
  click :: bool
  drag :: bool
  focusable :: bool

definition Sense_drag :: sense where
  "Sense_drag = \<lparr>click = False, drag = True, focusable = True\<rparr>"

definition Sense_click_and_drag :: sense where
  "Sense_click_and_drag = \<lparr>click = True, drag = True, focusable = True\<rparr>"

type_synonym widget_id = string

datatype widget = Heading string | Button string

record response =
  resp_rect :: rect
  resp_id :: widget_id
  resp_sense :: sense
  drag_started :: bool
  double_clicked :: bool

record egui_input =
  vp_maximized :: "bool option"
  panel_fill :: color32
  clip_rect :: rect
  interact_pos :: "pos2 option"
  drag_started_id :: "widget_id option"
  double_clicked_id :: "widget_id option"
  clicked_id :: "widget_id option"

record egui_output =
  cursor_icon :: cursor_icon
  viewport_cmds :: "viewport_command list"
  interactions :: "(rect \<times> widget_id \<times> sense) list"
  panels :: "frame list"
  widgets :: "widget list"

record ctx =
  ctx_in :: egui_input
  ctx_out :: egui_output

text \<open>The output of a fresh frame: default cursor, nothing sent, registered or painted.\<close>

definition fresh_output :: egui_output where
  "fresh_output = \<lparr>cursor_icon = CursorDefault, viewport_cmds = [], interactions = [], panels = [],
                   widgets = []\<rparr>"

subsection \<open>The context calls the frame makes\<close>

definition set_cursor_icon :: "cursor_icon \<Rightarrow> ctx \<Rightarrow> ctx" where
  "set_cursor_icon icon c = c\<lparr>ctx_out := (ctx_out c)\<lparr>cursor_icon := icon\<rparr>\<rparr>"

definition send_viewport_cmd :: "viewport_command \<Rightarrow> ctx \<Rightarrow> ctx" where
  "send_viewport_cmd cmd c =
     c\<lparr>ctx_out := (ctx_out c)\<lparr>viewport_cmds := viewport_cmds (ctx_out c) @ [cmd]\<rparr>\<rparr>"

definition ui_interact :: "rect \<Rightarrow> widget_id \<Rightarrow> sense \<Rightarrow> ctx \<Rightarrow> response \<times> ctx" where
  "ui_interact r i s c =
     (\<lparr>resp_rect = r, resp_id = i, resp_sense = s,
       drag_started = (drag s \<and> drag_started_id (ctx_in c) = Some i),
       double_clicked = (click s \<and> double_clicked_id (ctx_in c) = Some i)\<rparr>,
      c\<lparr>ctx_out := (ctx_out c)\<lparr>interactions := interactions (ctx_out c) @ [(r, i, s)]\<rparr>\<rparr>)"

definition central_panel_show :: "frame \<Rightarrow> ctx \<Rightarrow> (ctx \<Rightarrow> 'r \<times> ctx) \<Rightarrow> 'r \<times> ctx" where
  "central_panel_show f c body = body (c\<lparr>ctx_out := (ctx_out c)\<lparr>panels := panels (ctx_out c) @ [f]\<rparr>\<rparr>)"

text \<open>The widgets of the example's content callback: \<open>ui.heading(text)\<close> and
  \<open>ui.button(label)\<close> with its response's \<open>clicked()\<close>.\<close>

definition add_widget :: "widget \<Rightarrow> ctx \<Rightarrow> ctx" where
  "add_widget wd c = c\<lparr>ctx_out := (ctx_out c)\<lparr>widgets := widgets (ctx_out c) @ [wd]\<rparr>\<rparr>"

definition ui_heading :: "string \<Rightarrow> ctx \<Rightarrow> ctx" where
  "ui_heading text c = add_widget (Heading text) c"

definition ui_button :: "widget_id \<Rightarrow> ctx \<Rightarrow> bool \<times> ctx" where
  "ui_button label c = (clicked_id (ctx_in c) = Some label, add_widget (Button label) c)"

subsection \<open>What the calls change\<close>

text \<open>None of the calls writes the input part of the context.\<close>

lemma ctx_calls_keep_input [simp]:
  "ctx_in (set_cursor_icon icon c) = ctx_in c"
  "ctx_in (send_viewport_cmd cmd c) = ctx_in c"
  "ctx_in (snd (ui_interact r i s c)) = ctx_in c"
  "ctx_in (add_widget wd c) = ctx_in c"
  by (simp_all add: set_cursor_icon_def send_viewport_cmd_def ui_interact_def add_widget_def)

lemma ctx_calls_output [simp]:
  "cursor_icon (ctx_out (set_cursor_icon icon c)) = icon"
  "viewport_cmds (ctx_out (set_cursor_icon icon c)) = viewport_cmds (ctx_out c)"
  "interactions (ctx_out (set_cursor_icon icon c)) = interactions (ctx_out c)"
  "panels (ctx_out (set_cursor_icon icon c)) = panels (ctx_out c)"
  "cursor_icon (ctx_out (send_viewport_cmd cmd c)) = cursor_icon (ctx_out c)"
  "viewport_cmds (ctx_out (send_viewport_cmd cmd c)) = viewport_cmds (ctx_out c) @ [cmd]"
  "interactions (ctx_out (send_viewport_cmd cmd c)) = interactions (ctx_out c)"
  "panels (ctx_out (send_viewport_cmd cmd c)) = panels (ctx_out c)"
  "cursor_icon (ctx_out (snd (ui_interact r i s c))) = cursor_icon (ctx_out c)"
  "viewport_cmds (ctx_out (snd (ui_interact r i s c))) = viewport_cmds (ctx_out c)"
  "interactions (ctx_out (snd (ui_interact r i s c))) = interactions (ctx_out c) @ [(r, i, s)]"
  "panels (ctx_out (snd (ui_interact r i s c))) = panels (ctx_out c)"
  "widgets (ctx_out (set_cursor_icon icon c)) = widgets (ctx_out c)"
  "widgets (ctx_out (send_viewport_cmd cmd c)) = widgets (ctx_out c)"
  "widgets (ctx_out (snd (ui_interact r i s c))) = widgets (ctx_out c)"
  "cursor_icon (ctx_out (add_widget wd c)) = cursor_icon (ctx_out c)"
  "viewport_cmds (ctx_out (add_widget wd c)) = viewport_cmds (ctx_out c)"
  "interactions (ctx_out (add_widget wd c)) = interactions (ctx_out c)"
  "panels (ctx_out (add_widget wd c)) = panels (ctx_out c)"
  "widgets (ctx_out (add_widget wd c)) = widgets (ctx_out c) @ [wd]"
  by (simp_all add: set_cursor_icon_def send_viewport_cmd_def ui_interact_def add_widget_def)

lemma ui_interact_response [simp]:
  "drag_started (fst (ui_interact r i s c)) \<longleftrightarrow> drag s \<and> drag_started_id (ctx_in c) = Some i"
  "double_clicked (fst (ui_interact r i s c)) \<longleftrightarrow> click s \<and> double_clicked_id (ctx_in c) = Some i"
  by (simp_all add: ui_interact_def)

lemma sense_fields [simp]:
  "drag Sense_drag" "\<not> click Sense_drag"
  "drag Sense_click_and_drag" "click Sense_click_and_drag"
  by (simp_all add: Sense_drag_def Sense_click_and_drag_def)

end
