(* ===== verification/FrameShow.thy ===== *)
theory FrameShow
  imports EguiContext
begin

text \<open>
  \<open>CustomFrame::show\<close> (src/src/lib.rs, lines 79--221), one definition per
  step and in the order of the source: the maximized flag (line 80), the shadow
  width (81), the panel spec (83--91), the view rectangle (94--99), the sizebox's
  inner (core) rectangle (101), the caption rectangle (102--104), the pointer
  position with its \<open>f32::MIN\<close> sentinel (107--112), the two optional
  interaction regions (115--136), the eight-way resize classification and its
  effects (139--205), the caption's drag and double click (208--216), and the
  content callback (219).  The panel body is \<open>frame_body\<close>, the closure the
  source passes to \<open>CentralPanel::show\<close>; \<open>show_custom_frame\<close> composes
  the whole method.  The content callback \<open>add_content\<close> is a state
  transformer on the context returning the caller's result.
\<close>

definition is_maximized_of :: "ctx \<Rightarrow> bool" where
  "is_maximized_of c = (case vp_maximized (ctx_in c) of Some b \<Rightarrow> b | None \<Rightarrow> False)"

definition shadow_width :: "custom_frame \<Rightarrow> bool \<Rightarrow> f32" where
  "shadow_width self is_max = (if is_max then 0 else blur (shadow self) + spread (shadow self))"

definition panel_frame :: "custom_frame \<Rightarrow> ctx \<Rightarrow> bool \<Rightarrow> f32 \<Rightarrow> frame" where
  "panel_frame self c is_max sw =
     \<lparr>fr_inner_margin = inner_margin self,
      fr_outer_margin = Margin_same sw,
      fr_rounding = (if is_max then Rounding_ZERO else rounding self),
      fr_shadow = (if is_max then Shadow_NONE else shadow self),
      fill = panel_fill (ctx_in c),
      fr_stroke = Stroke_NONE\<rparr>"

definition view_rect_of :: "ctx \<Rightarrow> f32 \<Rightarrow> rect" where
  "view_rect_of c sw =
     (let clip = clip_rect (ctx_in c)
      in rect_shrink (Rect_from_min_size Pos2_ZERO (Vec2_new (rect_width clip) (rect_height clip))) sw)"

definition sizebox_inner_of :: "custom_frame \<Rightarrow> rect \<Rightarrow> rect" where
  "sizebox_inner_of self view = rect_sub_margin view (sizebox self)"

definition caption_rect_of :: "custom_frame \<Rightarrow> f32 \<Rightarrow> rect \<Rightarrow> rect" where
  "caption_rect_of self sw inner = rect_intersect (rect_translate (caption self) (Vec2_new sw sw)) inner"

definition pointer_pos :: "ctx \<Rightarrow> pos2" where
  "pointer_pos c = (case interact_pos (ctx_in c) of Some p \<Rightarrow> p | None \<Rightarrow> Pos2_new f32_MIN f32_MIN)"

definition sizebox_id :: widget_id where
  "sizebox_id = ''custom_frame_sizebox''"

definition caption_id :: widget_id where
  "caption_id = ''custom_frame_caption''"

definition sizebox_response_of :: "rect \<Rightarrow> rect \<Rightarrow> pos2 \<Rightarrow> bool \<Rightarrow> ctx \<Rightarrow> response option \<times> ctx" where
  "sizebox_response_of view inner pos is_max c =
     (if rect_contains view pos \<and> \<not> rect_contains inner pos \<and> \<not> is_max
      then (let (r, c') = ui_interact view sizebox_id Sense_drag c in (Some r, c'))
      else (None, c))"

definition caption_response_of :: "rect \<Rightarrow> pos2 \<Rightarrow> ctx \<Rightarrow> response option \<times> ctx" where
  "caption_response_of cap pos c =
     (if rect_contains cap pos
      then (let (r, c') = ui_interact cap caption_id Sense_click_and_drag c in (Some r, c'))
      else (None, c))"

text \<open>
  The nested \<open>if\<close> of lines 142--204: the column of the pointer against the
  inner rectangle's left and right edges, then its row against the top and bottom
  edges.  Each of the eight outcomes names the cursor icon the source sets and the
  direction of the \<open>BeginResize\<close> it sends; the middle column's middle row
  sets nothing.
\<close>

definition resize_zone :: "pos2 \<Rightarrow> rect \<Rightarrow> (cursor_icon \<times> resize_direction) option" where
  "resize_zone pos inner =
     (if px pos < rect_left inner then
        (if py pos < rect_top inner then Some (ResizeNorthWest, NorthWest)
         else if py pos > rect_bottom inner then Some (ResizeSouthWest, SouthWest)
         else Some (ResizeWest, West))
      else if px pos > rect_right inner then
        (if py pos < rect_top inner then Some (ResizeNorthEast, NorthEast)
         else if py pos > rect_bottom inner then Some (ResizeSouthEast, SouthEast)
         else Some (ResizeEast, East))
      else
        (if py pos < rect_top inner then Some (ResizeNorth, North)
         else if py pos > rect_bottom inner then Some (ResizeSouth, South)
         else None))"

definition produce_resizing :: "response option \<Rightarrow> pos2 \<Rightarrow> rect \<Rightarrow> ctx \<Rightarrow> ctx" where
  "produce_resizing sr pos inner c =
     (case sr of
        None \<Rightarrow> c
      | Some r \<Rightarrow>
          (let dragging = drag_started r in
           case resize_zone pos inner of
             None \<Rightarrow> c
           | Some (icon, dir) \<Rightarrow>
               (let c' = set_cursor_icon icon c
                in if dragging then send_viewport_cmd (BeginResize dir) c' else c')))"

definition produce_caption :: "response option \<Rightarrow> bool \<Rightarrow> ctx \<Rightarrow> ctx" where
  "produce_caption cr is_max c =
     (case cr of
        None \<Rightarrow> c
      | Some r \<Rightarrow>
          (let c' = (if drag_started r then send_viewport_cmd StartDrag c else c)
           in if double_clicked r then send_viewport_cmd (Maximized (\<not> is_max)) c' else c'))"

definition frame_body ::
  "custom_frame \<Rightarrow> bool \<Rightarrow> f32 \<Rightarrow> (ctx \<Rightarrow> 'r \<times> ctx) \<Rightarrow> ctx \<Rightarrow> 'r \<times> ctx" where
  "frame_body self is_max sw add_content c =
     (let view = view_rect_of c sw;
          inner = sizebox_inner_of self view;
          cap = caption_rect_of self sw inner;
          pos = pointer_pos c;
          (sr, c1) = sizebox_response_of view inner pos is_max c;
          (cr, c2) = caption_response_of cap pos c1;
          c3 = produce_resizing sr pos inner c2;
          c4 = produce_caption cr is_max c3
      in add_content c4)"

definition show_custom_frame :: "custom_frame \<Rightarrow> ctx \<Rightarrow> (ctx \<Rightarrow> 'r \<times> ctx) \<Rightarrow> 'r \<times> ctx" where
  "show_custom_frame self c add_content =
     (let is_max = is_maximized_of c;
          sw = shadow_width self is_max;
          pf = panel_frame self c is_max sw
      in central_panel_show pf c (frame_body self is_max sw add_content))"

text \<open>
  The frame's own effect on a context: \<open>show\<close> with a content callback that
  does nothing.  Every observation below is about this context; the first lemma
  of the next theory shows that a real callback runs on exactly this context.
\<close>

definition frame_effects :: "custom_frame \<Rightarrow> ctx \<Rightarrow> ctx" where
  "frame_effects self c = snd (show_custom_frame self c (\<lambda>u. ((), u)))"

subsection \<open>Step lemmas\<close>

text \<open>The steps read only the input part of the context, which no step writes.\<close>

lemma frame_inputs_out_update [simp]:
  "is_maximized_of (c\<lparr>ctx_out := out\<rparr>) = is_maximized_of c"
  "view_rect_of (c\<lparr>ctx_out := out\<rparr>) sw = view_rect_of c sw"
  "pointer_pos (c\<lparr>ctx_out := out\<rparr>) = pointer_pos c"
  by (simp_all add: is_maximized_of_def view_rect_of_def pointer_pos_def)

text \<open>The view rectangle starts at \<open>(sw, sw)\<close> and ends \<open>sw\<close> short of the clip size.\<close>

lemma view_rect_corners [simp]:
  "px (rmin (view_rect_of c sw)) = sw"
  "py (rmin (view_rect_of c sw)) = sw"
  "px (rmax (view_rect_of c sw)) = rect_width (clip_rect (ctx_in c)) - sw"
  "py (rmax (view_rect_of c sw)) = rect_height (clip_rect (ctx_in c)) - sw"
  by (simp_all add: view_rect_of_def Rect_from_min_size_def Pos2_ZERO_def Let_def)

lemma sizebox_response_active:
  "rect_contains view pos \<and> \<not> rect_contains inner pos \<and> \<not> m \<Longrightarrow>
   sizebox_response_of view inner pos m c =
     (Some (fst (ui_interact view sizebox_id Sense_drag c)), snd (ui_interact view sizebox_id Sense_drag c))"
  by (simp add: sizebox_response_of_def split_def Let_def)

lemma sizebox_response_inactive:
  "\<not> (rect_contains view pos \<and> \<not> rect_contains inner pos \<and> \<not> m) \<Longrightarrow>
   sizebox_response_of view inner pos m c = (None, c)"
  unfolding sizebox_response_of_def by auto

lemma caption_response_active:
  "rect_contains cap pos \<Longrightarrow>
   caption_response_of cap pos c =
     (Some (fst (ui_interact cap caption_id Sense_click_and_drag c)),
      snd (ui_interact cap caption_id Sense_click_and_drag c))"
  by (simp add: caption_response_of_def split_def Let_def)

lemma caption_response_inactive:
  "\<not> rect_contains cap pos \<Longrightarrow> caption_response_of cap pos c = (None, c)"
  by (simp add: caption_response_of_def)

text \<open>The caption rectangle is cut down to the inner rectangle.\<close>

lemma caption_in_core: "rect_contains (caption_rect_of self sw inner) p \<Longrightarrow> rect_contains inner p"
  by (simp add: caption_rect_of_def)

lemma shadow_width_cases [simp]:
  "shadow_width self True = 0"
  "shadow_width self False = blur (shadow self) + spread (shadow self)"
  by (simp_all add: shadow_width_def)

end
