(* ===== verification/FrameSpec.thy ===== *)
theory FrameSpec
  imports FrameShow "HOL-Library.Sublist"
begin

text \<open>
  What one frame of \<open>CustomFrame::show\<close> promises, stated without the code's
  nesting, and the proof that the code keeps the promise.  The specification reads
  the frame's geometry (\<open>geometry_of\<close>: maximized flag, shadow width, view,
  core and caption rectangles, pointer), classifies the pointer into one
  \<open>zone\<close> (a resize direction from the pointer's column and row against the core
  rectangle, the caption, or nothing) and says, per zone, which region is
  registered, which cursor is set and which viewport commands are sent.
  \<open>frame_effects_refines\<close> shows that the code's context after the frame is
  exactly the specification's; the lemmas after it derive the frame's promises
  from the zone: suppression while maximized, the resize ring, the caption, the
  exclusion of the two regions, the cases where nothing happens (pointer outside
  the view, no pointer, a viewport smaller than twice the gutter), and the order
  of the content callback.
\<close>

datatype column = WestCol | MidCol | EastCol

datatype row = NorthRow | MidRow | SouthRow

definition column_of :: "pos2 \<Rightarrow> rect \<Rightarrow> column" where
  "column_of p r =
     (if px p < rect_left r then WestCol else if rect_right r < px p then EastCol else MidCol)"

definition row_of :: "pos2 \<Rightarrow> rect \<Rightarrow> row" where
  "row_of p r =
     (if py p < rect_top r then NorthRow else if rect_bottom r < py p then SouthRow else MidRow)"

fun compass :: "column \<Rightarrow> row \<Rightarrow> resize_direction option" where
  "compass WestCol NorthRow = Some NorthWest"
| "compass WestCol MidRow = Some West"
| "compass WestCol SouthRow = Some SouthWest"
| "compass EastCol NorthRow = Some NorthEast"
| "compass EastCol MidRow = Some East"
| "compass EastCol SouthRow = Some SouthEast"
| "compass MidCol NorthRow = Some North"
| "compass MidCol MidRow = None"
| "compass MidCol SouthRow = Some South"

fun resize_cursor :: "resize_direction \<Rightarrow> cursor_icon" where
  "resize_cursor North = ResizeNorth"
| "resize_cursor South = ResizeSouth"
| "resize_cursor East = ResizeEast"
| "resize_cursor West = ResizeWest"
| "resize_cursor NorthEast = ResizeNorthEast"
| "resize_cursor SouthEast = ResizeSouthEast"
| "resize_cursor NorthWest = ResizeNorthWest"
| "resize_cursor SouthWest = ResizeSouthWest"

definition compass_of :: "pos2 \<Rightarrow> rect \<Rightarrow> resize_direction option" where
  "compass_of p r = compass (column_of p r) (row_of p r)"

datatype zone = NoZone | ResizeZone resize_direction | CaptionZone

record frame_geometry =
  g_max :: bool
  g_sw :: f32
  g_view :: rect
  g_core :: rect
  g_cap :: rect
  g_pos :: pos2

definition geometry_of :: "custom_frame \<Rightarrow> ctx \<Rightarrow> frame_geometry" where
  "geometry_of self c =
     (let m = is_maximized_of c; sw = shadow_width self m; view = view_rect_of c sw;
          core = sizebox_inner_of self view
      in \<lparr>g_max = m, g_sw = sw, g_view = view, g_core = core,
          g_cap = caption_rect_of self sw core, g_pos = pointer_pos c\<rparr>)"

definition in_sizebox :: "frame_geometry \<Rightarrow> bool" where
  "in_sizebox g \<longleftrightarrow>
     rect_contains (g_view g) (g_pos g) \<and> \<not> rect_contains (g_core g) (g_pos g) \<and> \<not> g_max g"

definition zone_of :: "frame_geometry \<Rightarrow> zone" where
  "zone_of g =
     (if in_sizebox g then
        (case compass_of (g_pos g) (g_core g) of Some d \<Rightarrow> ResizeZone d | None \<Rightarrow> NoZone)
      else if rect_contains (g_cap g) (g_pos g) then CaptionZone
      else NoZone)"

definition zone_regions :: "frame_geometry \<Rightarrow> zone \<Rightarrow> (rect \<times> widget_id \<times> sense) list" where
  "zone_regions g z =
     (case z of
        NoZone \<Rightarrow> []
      | ResizeZone _ \<Rightarrow> [(g_view g, sizebox_id, Sense_drag)]
      | CaptionZone \<Rightarrow> [(g_cap g, caption_id, Sense_click_and_drag)])"

definition zone_cursor :: "zone \<Rightarrow> cursor_icon option" where
  "zone_cursor z = (case z of ResizeZone d \<Rightarrow> Some (resize_cursor d) | _ \<Rightarrow> None)"

definition zone_cmds :: "egui_input \<Rightarrow> bool \<Rightarrow> zone \<Rightarrow> viewport_command list" where
  "zone_cmds inp m z =
     (case z of
        NoZone \<Rightarrow> []
      | ResizeZone d \<Rightarrow> (if drag_started_id inp = Some sizebox_id then [BeginResize d] else [])
      | CaptionZone \<Rightarrow>
          (if drag_started_id inp = Some caption_id then [StartDrag] else []) @
          (if double_clicked_id inp = Some caption_id then [Maximized (\<not> m)] else []))"

text \<open>The context after a frame in which only the panel was painted.\<close>

definition panel_painted :: "custom_frame \<Rightarrow> ctx \<Rightarrow> ctx" where
  "panel_painted self c =
     (let m = is_maximized_of c
      in c\<lparr>ctx_out := (ctx_out c)\<lparr>panels := panels (ctx_out c) @
                                   [panel_frame self c m (shadow_width self m)]\<rparr>\<rparr>)"

text \<open>What the frame appended to the command list and to the registered regions.\<close>

definition emitted_cmds :: "custom_frame \<Rightarrow> ctx \<Rightarrow> viewport_command list" where
  "emitted_cmds self c =
     drop (length (viewport_cmds (ctx_out c))) (viewport_cmds (ctx_out (frame_effects self c)))"

definition registered :: "custom_frame \<Rightarrow> ctx \<Rightarrow> (rect \<times> widget_id \<times> sense) list" where
  "registered self c =
     drop (length (interactions (ctx_out c))) (interactions (ctx_out (frame_effects self c)))"

text \<open>
  The well-formedness the spec asks of a style: a non-negative resize margin (so the
  core lies inside the view) and a non-negative shadow extent.
\<close>

definition frame_wf :: "custom_frame \<Rightarrow> bool" where
  "frame_wf self \<longleftrightarrow> margin_nonneg (sizebox self) \<and> 0 \<le> blur (shadow self) + spread (shadow self)"

text \<open>A context for the concrete instances: a 320 by 120 viewport and a fresh output.\<close>

definition sample_ctx :: "bool option \<Rightarrow> pos2 option \<Rightarrow> widget_id option \<Rightarrow> widget_id option \<Rightarrow> ctx" where
  "sample_ctx m p d dc =
     \<lparr>ctx_in = \<lparr>vp_maximized = m, panel_fill = Color32_TRANSPARENT,
                clip_rect = Rect_from_min_max (Pos2_new 0 0) (Pos2_new 320 120),
                interact_pos = p, drag_started_id = d, double_clicked_id = dc, clicked_id = None\<rparr>,
      ctx_out = fresh_output\<rparr>"

subsection \<open>The classification\<close>

lemma resize_zone_compass:
  "resize_zone pos inner = map_option (\<lambda>d. (resize_cursor d, d)) (compass_of pos inner)"
  by (simp add: resize_zone_def compass_of_def column_of_def row_of_def)

lemma compass_of_None_iff: "compass_of p r = None \<longleftrightarrow> rect_contains r p"
  by (auto simp: compass_of_def column_of_def row_of_def rect_contains_def)

lemma geometry_of_fields [simp]:
  "g_max (geometry_of self c) = is_maximized_of c"
  "g_sw (geometry_of self c) = shadow_width self (is_maximized_of c)"
  "g_view (geometry_of self c) = view_rect_of c (shadow_width self (is_maximized_of c))"
  "g_core (geometry_of self c) = sizebox_inner_of self (view_rect_of c (shadow_width self (is_maximized_of c)))"
  "g_cap (geometry_of self c) = caption_rect_of self (shadow_width self (is_maximized_of c))
     (sizebox_inner_of self (view_rect_of c (shadow_width self (is_maximized_of c))))"
  "g_pos (geometry_of self c) = pointer_pos c"
  by (simp_all add: geometry_of_def Let_def)

lemmas zone_eval = zone_of_def in_sizebox_def compass_of_def column_of_def row_of_def
  zone_cmds_def zone_regions_def zone_cursor_def

lemmas geometry_eval = is_maximized_of_def view_rect_of_def sizebox_inner_of_def
  caption_rect_of_def pointer_pos_def rect_contains_def Rect_from_min_size_def Pos2_ZERO_def
  Vec2_ZERO_def

subsection \<open>Refinement\<close>

lemma frame_effects_steps:
  "frame_effects self c =
     (let g = geometry_of self c;
          (sr, c1) = sizebox_response_of (g_view g) (g_core g) (g_pos g) (g_max g) (panel_painted self c);
          (cr, c2) = caption_response_of (g_cap g) (g_pos g) c1
      in produce_caption cr (g_max g) (produce_resizing sr (g_pos g) (g_core g) c2))"
  by (simp add: frame_effects_def show_custom_frame_def frame_body_def central_panel_show_def
      geometry_of_def panel_painted_def Let_def split_def)

lemma frame_effects_zone:
  "frame_effects self c =
     (let g = geometry_of self c; z = zone_of g in
      c\<lparr>ctx_out :=
         \<lparr>cursor_icon = (case zone_cursor z of Some i \<Rightarrow> i | None \<Rightarrow> cursor_icon (ctx_out c)),
          viewport_cmds = viewport_cmds (ctx_out c) @ zone_cmds (ctx_in c) (g_max g) z,
          interactions = interactions (ctx_out c) @ zone_regions g z,
          panels = panels (ctx_out c) @ [panel_frame self c (g_max g) (g_sw g)],
          widgets = widgets (ctx_out c)\<rparr>\<rparr>)"
proof -
  define g where "g = geometry_of self c"
  define c0 where "c0 = panel_painted self c"
  have in0: "ctx_in c0 = ctx_in c" and out0: "ctx_out c0 = (ctx_out c)\<lparr>panels := panels (ctx_out c) @
     [panel_frame self c (g_max g) (g_sw g)]\<rparr>"
    by (simp_all add: c0_def g_def panel_painted_def Let_def)
  have upd0: "c0\<lparr>ctx_out := X\<rparr> = c\<lparr>ctx_out := X\<rparr>" for X
    by (simp add: c0_def panel_painted_def Let_def)
  note out_defs = in0 out0 upd0 ui_interact_def set_cursor_icon_def send_viewport_cmd_def
    produce_resizing_def produce_caption_def zone_cmds_def zone_regions_def zone_cursor_def
  consider (rs) "in_sizebox g" | (cap) "\<not> in_sizebox g" "rect_contains (g_cap g) (g_pos g)"
    | (none) "\<not> in_sizebox g" "\<not> rect_contains (g_cap g) (g_pos g)"
    by blast
  then show ?thesis
  proof cases
    case rs
    then have nc: "\<not> rect_contains (g_cap g) (g_pos g)"
      by (auto simp: in_sizebox_def g_def dest: caption_in_core)
    from rs obtain d where d: "compass_of (g_pos g) (g_core g) = Some d"
      by (cases "compass_of (g_pos g) (g_core g)") (auto simp: in_sizebox_def compass_of_None_iff)
    from rs have sb: "sizebox_response_of (g_view g) (g_core g) (g_pos g) (g_max g) c0 =
      (Some (fst (ui_interact (g_view g) sizebox_id Sense_drag c0)),
       snd (ui_interact (g_view g) sizebox_id Sense_drag c0))"
      by (simp add: in_sizebox_def sizebox_response_active)
    from rs d have z: "zone_of g = ResizeZone d"
      by (simp add: zone_of_def)
    show ?thesis
      unfolding frame_effects_steps g_def [symmetric] c0_def [symmetric]
      by (simp add: sb z nc d caption_response_inactive resize_zone_compass out_defs)
  next
    case cap
    from cap have sb: "sizebox_response_of (g_view g) (g_core g) (g_pos g) (g_max g) c0 = (None, c0)"
      by (simp add: in_sizebox_def sizebox_response_inactive)
    from cap have z: "zone_of g = CaptionZone"
      by (simp add: zone_of_def)
    show ?thesis
      unfolding frame_effects_steps g_def [symmetric] c0_def [symmetric]
      by (simp add: sb z cap caption_response_active out_defs)
  next
    case none
    from none have sb: "sizebox_response_of (g_view g) (g_core g) (g_pos g) (g_max g) c0 = (None, c0)"
      by (simp add: in_sizebox_def sizebox_response_inactive)
    from none have z: "zone_of g = NoZone"
      by (simp add: zone_of_def)
    show ?thesis
      unfolding frame_effects_steps g_def [symmetric] c0_def [symmetric]
      by (simp add: sb z none caption_response_inactive out_defs)
  qed
qed

text \<open>The content callback runs on the context the frame's own steps leave.\<close>

lemma show_custom_frame_split:
  "show_custom_frame self c add_content = add_content (frame_effects self c)"
  by (simp add: show_custom_frame_def frame_effects_def frame_body_def central_panel_show_def
      Let_def split_def)

text \<open>The refinement read field by field.\<close>

lemma frame_effects_observe [simp]:
  "ctx_in (frame_effects self c) = ctx_in c"
  "cursor_icon (ctx_out (frame_effects self c)) =
     (case zone_cursor (zone_of (geometry_of self c)) of Some i \<Rightarrow> i | None \<Rightarrow> cursor_icon (ctx_out c))"
  "emitted_cmds self c = zone_cmds (ctx_in c) (is_maximized_of c) (zone_of (geometry_of self c))"
  "registered self c = zone_regions (geometry_of self c) (zone_of (geometry_of self c))"
  "panels (ctx_out (frame_effects self c)) =
     panels (ctx_out c) @ [panel_frame self c (is_maximized_of c) (shadow_width self (is_maximized_of c))]"
  "widgets (ctx_out (frame_effects self c)) = widgets (ctx_out c)"
  by (simp_all add: frame_effects_zone [of self c] emitted_cmds_def registered_def Let_def)

lemma viewport_cmds_emitted:
  "viewport_cmds (ctx_out (frame_effects self c)) = viewport_cmds (ctx_out c) @ emitted_cmds self c"
  by (simp add: frame_effects_zone [of self c] emitted_cmds_def Let_def)

lemma no_zone_panel_only:
  "zone_of (geometry_of self c) = NoZone \<Longrightarrow> frame_effects self c = panel_painted self c"
  by (simp add: frame_effects_zone [of self c] panel_painted_def zone_cursor_def zone_cmds_def
      zone_regions_def Let_def)

lemma zone_of_cases:
  "zone_of g = CaptionZone \<longleftrightarrow> \<not> in_sizebox g \<and> rect_contains (g_cap g) (g_pos g)"
  "zone_of g = ResizeZone d \<longleftrightarrow> in_sizebox g \<and> compass_of (g_pos g) (g_core g) = Some d"
  by (auto simp: zone_of_def split: option.splits)

lemma zone_of_NoZone:
  "zone_of g = NoZone \<longleftrightarrow> \<not> in_sizebox g \<and> \<not> rect_contains (g_cap g) (g_pos g)"
  by (auto simp: zone_of_def in_sizebox_def compass_of_None_iff split: option.splits)

text \<open>A pointer in the caption rectangle is never in the resize ring.\<close>

lemma zone_of_caption:
  "rect_contains (g_cap (geometry_of self c)) (pointer_pos c) \<Longrightarrow>
   zone_of (geometry_of self c) = CaptionZone"
  by (auto simp: zone_of_cases in_sizebox_def dest: caption_in_core)

text \<open>Which commands a frame can emit: resizing only when not maximized, and
  Maximized only as the toggle of the current state.\<close>

lemma emitted_resize_not_maximized:
  "BeginResize d \<in> set (emitted_cmds self c) \<Longrightarrow> \<not> is_maximized_of c"
  by (auto simp: zone_cmds_def zone_of_def in_sizebox_def split: zone.splits if_splits option.splits)

lemma emitted_maximized_toggles:
  "Maximized b \<in> set (emitted_cmds self c) \<Longrightarrow> b = (\<not> is_maximized_of c)"
  by (auto simp: zone_cmds_def split: zone.splits if_splits)

lemma zone_cmds_no_close [simp]: "Close \<notin> set (zone_cmds inp m z)"
  by (auto simp: zone_cmds_def split: zone.splits)

text \<open>The sentinel position of a frame without pointer lies left of any view
  rectangle whose shadow gutter is not negative.\<close>

lemma sentinel_outside_view:
  "0 \<le> sw \<Longrightarrow> \<not> rect_contains (view_rect_of c sw) (Pos2_new f32_MIN f32_MIN)"
  by (simp add: rect_contains_def f32_MIN_def f32_MAX_def)

lemma frame_wf_shadow_width:
  "frame_wf self \<Longrightarrow> 0 \<le> shadow_width self m"
  by (cases m) (simp_all add: frame_wf_def)

text \<open>For a well-formed style, a pointer outside the view rectangle is in no zone:
  the inner and caption rectangles lie inside the view.\<close>

lemma outside_view_panel_only:
  assumes "frame_wf self"
    and "\<not> rect_contains (view_rect_of c (shadow_width self (is_maximized_of c))) (pointer_pos c)"
  shows "frame_effects self c = panel_painted self c"
proof -
  from assms(1) have "margin_nonneg (sizebox self)"
    by (simp add: frame_wf_def)
  with assms(2) have "\<not> rect_contains (caption_rect_of self (shadow_width self (is_maximized_of c))
      (sizebox_inner_of self (view_rect_of c (shadow_width self (is_maximized_of c))))) (pointer_pos c)"
    by (auto simp: sizebox_inner_of_def dest: caption_in_core rect_contains_sub_margin)
  with assms(2) have "zone_of (geometry_of self c) = NoZone"
    by (simp add: zone_of_NoZone in_sizebox_def)
  then show ?thesis
    by (rule no_zone_panel_only)
qed

subsection \<open>Claims about one frame\<close>

text \<open>
  C1 (refinement).  After the frame's own steps the context is exactly the one the
  zone specification describes: the input is untouched, the cursor is the zone's
  resize cursor or unchanged, the zone's commands and region are appended to the
  command list and the registered regions, one panel is painted with the
  frame's visual spec, and no widget is added.
\<close>

theorem frame_effects_refines:
  "frame_effects self c =
     (let g = geometry_of self c; z = zone_of g in
      c\<lparr>ctx_out :=
         \<lparr>cursor_icon = (case zone_cursor z of Some i \<Rightarrow> i | None \<Rightarrow> cursor_icon (ctx_out c)),
          viewport_cmds = viewport_cmds (ctx_out c) @ zone_cmds (ctx_in c) (g_max g) z,
          interactions = interactions (ctx_out c) @ zone_regions g z,
          panels = panels (ctx_out c) @ [panel_frame self c (g_max g) (g_sw g)],
          widgets = widgets (ctx_out c)\<rparr>\<rparr>)"
  by (rule frame_effects_zone)

theorem frame_effects_refines_witness:
  "viewport_cmds (ctx_out (frame_effects CustomFrame_default
      (sample_ctx (Some False) (Some (Pos2_new 21 60)) (Some sizebox_id) None))) = [BeginResize West]"
  unfolding frame_effects_refines [of CustomFrame_default]
  by (simp add: sample_ctx_def zone_eval geometry_eval CustomFrame_default_def fresh_output_def Let_def)

text \<open>
  C2 (equivalence).  The nested \<open>if\<close> that picks the resize cursor and direction
  is the compass classification of the pointer's column and row against the inner
  rectangle, and it picks nothing exactly when the pointer is inside the inner
  rectangle.
\<close>

theorem resize_zone_classifies:
  "resize_zone pos inner =
     (case compass (column_of pos inner) (row_of pos inner) of
        None \<Rightarrow> None | Some d \<Rightarrow> Some (resize_cursor d, d)) \<and>
   (resize_zone pos inner = None \<longleftrightarrow> rect_contains inner pos)"
  using compass_of_None_iff [of pos inner]
  by (auto simp: resize_zone_compass compass_of_def split: option.splits)

text \<open>
  C3 (safety).  While the window is maximized the frame sends no resize command,
  registers no sizebox region and leaves the cursor alone, and the painted panel has
  no rounding, no shadow and no outer margin.
\<close>

theorem maximized_suppresses_resize:
  assumes "is_maximized_of c"
  shows "(\<forall>d. BeginResize d \<notin> set (emitted_cmds self c)) \<and>
         (\<forall>r s. (r, sizebox_id, s) \<notin> set (registered self c)) \<and>
         cursor_icon (ctx_out (frame_effects self c)) = cursor_icon (ctx_out c) \<and>
         (\<exists>pf. panels (ctx_out (frame_effects self c)) = panels (ctx_out c) @ [pf] \<and>
               fr_rounding pf = Rounding_ZERO \<and> fr_shadow pf = Shadow_NONE \<and>
               fr_outer_margin pf = Margin_same 0)"
proof -
  from assms have "zone_of (geometry_of self c) \<in> {NoZone, CaptionZone}"
    by (auto simp: zone_of_def in_sizebox_def)
  then show ?thesis
    using assms by (auto simp: zone_cmds_def zone_regions_def zone_cursor_def sizebox_id_def
        caption_id_def panel_frame_def)
qed

theorem maximized_suppresses_resize_witness:
  "is_maximized_of (sample_ctx (Some True) (Some (Pos2_new 1 60)) (Some sizebox_id) None) \<and>
   emitted_cmds CustomFrame_default (sample_ctx (Some True) (Some (Pos2_new 1 60)) (Some sizebox_id) None) = []"
proof -
  have m: "is_maximized_of (sample_ctx (Some True) (Some (Pos2_new 1 60)) (Some sizebox_id) None)"
    by (simp add: sample_ctx_def is_maximized_of_def)
  from maximized_suppresses_resize [OF m, of CustomFrame_default] m show ?thesis
    by (simp add: sample_ctx_def zone_eval geometry_eval CustomFrame_default_def)
qed

text \<open>
  C4 (functional).  With the window not maximized and the pointer inside the view
  rectangle but outside the inner rectangle, the pointer has a compass direction;
  the frame sets that direction's resize cursor, registers the sizebox region over
  the view rectangle, and sends BeginResize in that direction exactly when a drag
  started on the sizebox this frame.
\<close>

theorem resize_ring_effects:
  assumes "\<not> is_maximized_of c"
    and "rect_contains (view_rect_of c (shadow_width self False)) (pointer_pos c)"
    and "\<not> rect_contains (sizebox_inner_of self (view_rect_of c (shadow_width self False))) (pointer_pos c)"
  shows "\<exists>d. compass_of (pointer_pos c) (sizebox_inner_of self (view_rect_of c (shadow_width self False))) = Some d \<and>
             cursor_icon (ctx_out (frame_effects self c)) = resize_cursor d \<and>
             emitted_cmds self c = (if drag_started_id (ctx_in c) = Some sizebox_id then [BeginResize d] else []) \<and>
             registered self c = [(view_rect_of c (shadow_width self False), sizebox_id, Sense_drag)]"
proof -
  from assms obtain d where d: "compass_of (pointer_pos c) (sizebox_inner_of self (view_rect_of c (shadow_width self False))) = Some d"
    by (cases "compass_of (pointer_pos c) (sizebox_inner_of self (view_rect_of c (shadow_width self False)))")
      (auto simp: compass_of_None_iff)
  with assms have "zone_of (geometry_of self c) = ResizeZone d"
    by (simp add: zone_of_cases in_sizebox_def)
  with d show ?thesis
    by (simp add: zone_cursor_def zone_cmds_def zone_regions_def assms(1))
qed

theorem resize_ring_effects_witness:
  "cursor_icon (ctx_out (frame_effects CustomFrame_default
      (sample_ctx (Some False) (Some (Pos2_new 299 99)) None None))) = ResizeSouthEast"
proof -
  let ?c = "sample_ctx (Some False) (Some (Pos2_new 299 99)) None None"
  have h: "\<not> is_maximized_of ?c"
    "rect_contains (view_rect_of ?c (shadow_width CustomFrame_default False)) (pointer_pos ?c)"
    "\<not> rect_contains (sizebox_inner_of CustomFrame_default (view_rect_of ?c (shadow_width CustomFrame_default False))) (pointer_pos ?c)"
    by (simp_all add: sample_ctx_def geometry_eval CustomFrame_default_def)
  from resize_ring_effects [OF h] show ?thesis
    by (auto simp: sample_ctx_def geometry_eval CustomFrame_default_def compass_of_def column_of_def row_of_def)
qed

text \<open>
  C5 (functional).  With the pointer inside the caption rectangle, the frame
  registers the caption region, sends StartDrag when a drag started on the caption
  and then Maximized with the negation of the current state when the caption was
  double-clicked, sends no resize command and leaves the cursor alone.
\<close>

theorem caption_zone_effects:
  assumes "rect_contains (caption_rect_of self (shadow_width self (is_maximized_of c))
             (sizebox_inner_of self (view_rect_of c (shadow_width self (is_maximized_of c))))) (pointer_pos c)"
  shows "emitted_cmds self c =
           (if drag_started_id (ctx_in c) = Some caption_id then [StartDrag] else []) @
           (if double_clicked_id (ctx_in c) = Some caption_id then [Maximized (\<not> is_maximized_of c)] else []) \<and>
         (\<forall>d. BeginResize d \<notin> set (emitted_cmds self c)) \<and>
         cursor_icon (ctx_out (frame_effects self c)) = cursor_icon (ctx_out c) \<and>
         registered self c = [(caption_rect_of self (shadow_width self (is_maximized_of c))
             (sizebox_inner_of self (view_rect_of c (shadow_width self (is_maximized_of c)))), caption_id, Sense_click_and_drag)]"
proof -
  from assms have "zone_of (geometry_of self c) = CaptionZone"
    by (simp add: zone_of_caption)
  then show ?thesis
    by (simp add: zone_cursor_def zone_cmds_def zone_regions_def)
qed

theorem caption_zone_effects_witness:
  "emitted_cmds CustomFrame_default
      (sample_ctx (Some False) (Some (Pos2_new 25 25)) (Some caption_id) (Some caption_id)) =
   [StartDrag, Maximized True]"
proof -
  let ?c = "sample_ctx (Some False) (Some (Pos2_new 25 25)) (Some caption_id) (Some caption_id)"
  have h: "rect_contains (caption_rect_of CustomFrame_default (shadow_width CustomFrame_default (is_maximized_of ?c))
             (sizebox_inner_of CustomFrame_default (view_rect_of ?c (shadow_width CustomFrame_default (is_maximized_of ?c))))) (pointer_pos ?c)"
    by (simp add: sample_ctx_def geometry_eval CustomFrame_default_def f32_MAX_def)
  from caption_zone_effects [OF h] show ?thesis
    by (simp add: sample_ctx_def is_maximized_of_def)
qed

text \<open>
  C6 (safety).  When the sizebox region is registered, the caption region is not:
  the caption rectangle is cut down to the inner rectangle, which the pointer is
  outside of.
\<close>

theorem sizebox_caption_exclusive:
  assumes "fst (sizebox_response_of view (sizebox_inner_of self view) pos m c) \<noteq> None"
  shows "fst (caption_response_of (caption_rect_of self sw (sizebox_inner_of self view)) pos c') = None"
proof -
  from assms have "\<not> rect_contains (sizebox_inner_of self view) pos"
    by (auto simp: sizebox_response_of_def)
  then have "\<not> rect_contains (caption_rect_of self sw (sizebox_inner_of self view)) pos"
    by (auto dest: caption_in_core)
  then show ?thesis
    by (simp add: caption_response_inactive)
qed

theorem sizebox_caption_exclusive_witness:
  "fst (sizebox_response_of (Rect_from_min_max (Pos2_new 20 20) (Pos2_new 300 100))
          (sizebox_inner_of CustomFrame_default (Rect_from_min_max (Pos2_new 20 20) (Pos2_new 300 100)))
          (Pos2_new 21 60) False (sample_ctx None None None None)) \<noteq> None \<and>
   fst (caption_response_of (caption_rect_of CustomFrame_default 20
          (sizebox_inner_of CustomFrame_default (Rect_from_min_max (Pos2_new 20 20) (Pos2_new 300 100))))
          (Pos2_new 21 60) (sample_ctx None None None None)) = None"
proof -
  have h: "fst (sizebox_response_of (Rect_from_min_max (Pos2_new 20 20) (Pos2_new 300 100))
          (sizebox_inner_of CustomFrame_default (Rect_from_min_max (Pos2_new 20 20) (Pos2_new 300 100)))
          (Pos2_new 21 60) False (sample_ctx None None None None)) \<noteq> None"
    by (simp add: sizebox_response_active sizebox_inner_of_def rect_contains_def CustomFrame_default_def)
  show ?thesis
    using h sizebox_caption_exclusive [OF h, of 20 "sample_ctx None None None None"] by simp
qed

text \<open>
  C7 (invariant).  A point is in the computed caption rectangle exactly when it is
  in the inner rectangle and, moved back by the shadow width on both axes, in the
  configured caption: the caption is translated by (sw, sw) and never reaches into
  the resize ring.
\<close>

theorem caption_rect_within_core:
  "rect_contains (caption_rect_of self sw inner) p \<longleftrightarrow>
     rect_contains (caption self) (pos2_sub p (Vec2_new sw sw)) \<and> rect_contains inner p"
  by (simp add: caption_rect_of_def rect_contains_translate)


text \<open>
  C8 (safety).  For a well-formed style and a pointer outside the view rectangle,
  the frame only paints its panel: no region, no cursor, no command.
\<close>

theorem outside_view_no_effect:
  assumes "frame_wf self"
    and "\<not> rect_contains (view_rect_of c (shadow_width self (is_maximized_of c))) (pointer_pos c)"
  shows "frame_effects self c = panel_painted self c"
  using assms by (rule outside_view_panel_only)

theorem outside_view_no_effect_witness:
  "frame_effects CustomFrame_default (sample_ctx (Some False) (Some (Pos2_new 1 1)) (Some sizebox_id) None) =
   panel_painted CustomFrame_default (sample_ctx (Some False) (Some (Pos2_new 1 1)) (Some sizebox_id) None)"
proof (rule outside_view_no_effect)
  show "frame_wf CustomFrame_default"
    by (simp add: frame_wf_def margin_nonneg_def CustomFrame_default_def)
  show "\<not> rect_contains (view_rect_of (sample_ctx (Some False) (Some (Pos2_new 1 1)) (Some sizebox_id) None)
      (shadow_width CustomFrame_default (is_maximized_of (sample_ctx (Some False) (Some (Pos2_new 1 1)) (Some sizebox_id) None))))
      (pointer_pos (sample_ctx (Some False) (Some (Pos2_new 1 1)) (Some sizebox_id) None))"
    by (simp add: sample_ctx_def geometry_eval CustomFrame_default_def)
qed

text \<open>
  C9 (error).  For a well-formed style, a frame without pointer position (the
  f32::MIN sentinel) only paints its panel.
\<close>

theorem no_pointer_no_effect:
  assumes "frame_wf self" and "interact_pos (ctx_in c) = None"
  shows "frame_effects self c = panel_painted self c"
proof -
  have "0 \<le> shadow_width self (is_maximized_of c)"
    using assms(1) by (rule frame_wf_shadow_width)
  then have "\<not> rect_contains (view_rect_of c (shadow_width self (is_maximized_of c))) (pointer_pos c)"
    using assms(2) by (simp add: pointer_pos_def sentinel_outside_view)
  with assms(1) show ?thesis
    by (rule outside_view_panel_only)
qed

theorem no_pointer_no_effect_witness:
  "emitted_cmds CustomFrame_default (sample_ctx (Some False) None (Some caption_id) (Some caption_id)) = []"
proof -
  have h: "frame_wf CustomFrame_default" "interact_pos (ctx_in (sample_ctx (Some False) None (Some caption_id) (Some caption_id))) = None"
    by (simp_all add: frame_wf_def margin_nonneg_def CustomFrame_default_def sample_ctx_def)
  show ?thesis
    unfolding emitted_cmds_def no_pointer_no_effect [OF h] by (simp add: panel_painted_def Let_def)
qed

text \<open>
  C10 (functional).  The content callback runs once, on the context after all of
  the frame's own effects, and its result and final context are what show returns;
  so every command the frame sends precedes every command the content sends.
\<close>

theorem content_runs_after_frame:
  "show_custom_frame self c add_content = add_content (frame_effects self c)"
  by (simp add: show_custom_frame_def frame_effects_def frame_body_def central_panel_show_def
      Let_def split_def)

text \<open>
  C11 (bounds).  A frame sends nothing, one BeginResize, one StartDrag, one
  Maximized, or StartDrag followed by Maximized: at most two commands and at most
  one resize command.
\<close>

theorem frame_cmds_shape:
  "emitted_cmds self c = [] \<or> (\<exists>d. emitted_cmds self c = [BeginResize d]) \<or>
   emitted_cmds self c = [StartDrag] \<or> (\<exists>b. emitted_cmds self c = [Maximized b]) \<or>
   (\<exists>b. emitted_cmds self c = [StartDrag, Maximized b])"
  by (simp add: zone_cmds_def split: zone.split)

text \<open>
  C12 (safety).  A pointer inside the inner rectangle but outside the caption
  rectangle triggers nothing: resizing only starts outside the inner rectangle.
\<close>

theorem core_outside_caption_no_effect:
  assumes "rect_contains (sizebox_inner_of self (view_rect_of c (shadow_width self (is_maximized_of c)))) (pointer_pos c)"
    and "\<not> rect_contains (caption_rect_of self (shadow_width self (is_maximized_of c))
          (sizebox_inner_of self (view_rect_of c (shadow_width self (is_maximized_of c))))) (pointer_pos c)"
  shows "frame_effects self c = panel_painted self c"
proof -
  from assms have "zone_of (geometry_of self c) = NoZone"
    by (simp add: zone_of_NoZone in_sizebox_def)
  then show ?thesis
    by (rule no_zone_panel_only)
qed

theorem core_outside_caption_no_effect_witness:
  "emitted_cmds CustomFrame_default (sample_ctx (Some False) (Some (Pos2_new 100 80)) (Some caption_id) None) = []"
proof -
  let ?c = "sample_ctx (Some False) (Some (Pos2_new 100 80)) (Some caption_id) None"
  have h: "rect_contains (sizebox_inner_of CustomFrame_default (view_rect_of ?c (shadow_width CustomFrame_default (is_maximized_of ?c)))) (pointer_pos ?c)"
    "\<not> rect_contains (caption_rect_of CustomFrame_default (shadow_width CustomFrame_default (is_maximized_of ?c))
          (sizebox_inner_of CustomFrame_default (view_rect_of ?c (shadow_width CustomFrame_default (is_maximized_of ?c))))) (pointer_pos ?c)"
    by (simp_all add: sample_ctx_def geometry_eval CustomFrame_default_def)
  show ?thesis
    unfolding emitted_cmds_def core_outside_caption_no_effect [OF h] by (simp add: panel_painted_def Let_def)
qed

text \<open>
  C13 (functional).  When the window is not maximized, the painted panel has the
  configured inner margin, rounding and shadow, an outer margin of blur plus
  spread on every side, the theme's panel fill and no stroke.
\<close>

theorem panel_frame_normal:
  assumes "\<not> is_maximized_of c"
  shows "panels (ctx_out (frame_effects self c)) = panels (ctx_out c) @
     [\<lparr>fr_inner_margin = inner_margin self,
       fr_outer_margin = Margin_same (blur (shadow self) + spread (shadow self)),
       fr_rounding = rounding self, fr_shadow = shadow self,
       fill = panel_fill (ctx_in c), fr_stroke = Stroke_NONE\<rparr>]"
  using assms by (simp add: panel_frame_def)

theorem panel_frame_normal_witness:
  "panels (ctx_out (frame_effects CustomFrame_default (sample_ctx (Some False) None None None))) =
     [\<lparr>fr_inner_margin = Margin_same 10, fr_outer_margin = Margin_same 20,
       fr_rounding = Rounding_same 10, fr_shadow = shadow CustomFrame_default,
       fill = Color32_TRANSPARENT, fr_stroke = Stroke_NONE\<rparr>]"
proof -
  have h: "\<not> is_maximized_of (sample_ctx (Some False) None None None)"
    by (simp add: sample_ctx_def is_maximized_of_def)
  show ?thesis
    using panel_frame_normal [OF h, of CustomFrame_default]
    by (simp add: sample_ctx_def fresh_output_def CustomFrame_default_def)
qed

text \<open>
  C20 (invariant).  The rectangle the frame hit-tests against is the panel's area
  inside its outer margin: on each side the view rectangle is as far from the clip
  rectangle's edge as the painted panel's outer margin, so the shadow gutter the
  margin reserves is never a resize or caption zone.
\<close>

theorem view_rect_is_panel_minus_gutter:
  "let m = is_maximized_of c; sw = shadow_width self m; om = fr_outer_margin (panel_frame self c m sw);
       view = view_rect_of c sw; clip = clip_rect (ctx_in c)
   in px (rmin view) = mleft om \<and> py (rmin view) = mtop om \<and>
      rect_width clip - px (rmax view) = mright om \<and> rect_height clip - py (rmax view) = mbottom om"
  by (simp add: panel_frame_def Let_def)

text \<open>
  C21 (functional).  The frame never changes the context's input and only appends to
  its output: the commands and regions that were queued before it are kept, it
  registers at most one region, and it paints exactly one panel.
\<close>

theorem frame_only_appends:
  "ctx_in (frame_effects self c) = ctx_in c \<and>
   prefix (viewport_cmds (ctx_out c)) (viewport_cmds (ctx_out (frame_effects self c))) \<and>
   prefix (interactions (ctx_out c)) (interactions (ctx_out (frame_effects self c))) \<and>
   length (registered self c) \<le> 1 \<and>
   length (panels (ctx_out (frame_effects self c))) = Suc (length (panels (ctx_out c)))"
  by (simp add: frame_effects_zone [of self c] registered_def Let_def zone_regions_def split: zone.split)

text \<open>
  An instance showing that the no-zone-outside-the-view property needs a
  non-negative resize margin: with \<open>sizebox(Margin::same(-10.0))\<close> on the default frame, a pointer
  at (305,30) is outside the view rectangle, yet the caption rectangle, cut to an
  inner rectangle that now reaches beyond the view, contains it, so the frame
  registers the caption region and a drag there sends StartDrag.
\<close>

lemma negative_sizebox_caption_outside_view:
  "\<not> rect_contains (view_rect_of (sample_ctx (Some False) (Some (Pos2_new 305 30)) (Some caption_id) None) 20)
      (Pos2_new 305 30) \<and>
   registered (with_sizebox CustomFrame_default (Margin_same (-10)))
      (sample_ctx (Some False) (Some (Pos2_new 305 30)) (Some caption_id) None) =
     [(Rect_from_min_max (Pos2_new 24 24) (Pos2_new 310 64), caption_id, Sense_click_and_drag)] \<and>
   emitted_cmds (with_sizebox CustomFrame_default (Margin_same (-10)))
      (sample_ctx (Some False) (Some (Pos2_new 305 30)) (Some caption_id) None) = [StartDrag]"
  by (simp add: with_sizebox_def sample_ctx_def zone_eval geometry_eval CustomFrame_default_def f32_MAX_def
        rect_intersect_def pos2_max_def pos2_min_def rect_translate_def rect_size_def
        Rect_from_min_max_def rect_sub_margin_def pos2_add_def pos2_sub_def pos2_diff_def Vec2_new_def)

text \<open>
  C22 (bounds).  The panel's outer margin (line 87, "so the shadow is within the
  bounds") holds the painted shadow on every side exactly when the shadow's offset is
  at most half its blur on each axis: the margin is blur + spread, while egui paints
  the shadow spread + blur/2 beyond the panel, shifted by the offset.
\<close>

theorem shadow_within_gutter_iff:
  "margin_within (Shadow_margin (fr_shadow (panel_frame self c False (shadow_width self False))))
                 (fr_outer_margin (panel_frame self c False (shadow_width self False))) \<longleftrightarrow>
     \<bar>vx (offset (shadow self))\<bar> \<le> blur (shadow self) / 2 \<and> \<bar>vy (offset (shadow self))\<bar> \<le> blur (shadow self) / 2"
  by (auto simp: margin_within_def Shadow_margin_def panel_frame_def)

theorem shadow_within_gutter_iff_witness:
  "margin_within (Shadow_margin (fr_shadow (panel_frame CustomFrame_default (sample_ctx None None None None) False
       (shadow_width CustomFrame_default False))))
     (fr_outer_margin (panel_frame CustomFrame_default (sample_ctx None None None None) False (shadow_width CustomFrame_default False))) \<and>
   \<not> margin_within (Shadow_margin (fr_shadow (panel_frame (with_shadow CustomFrame_default
       \<lparr>offset = Vec2_new 15 0, blur = 18, spread = 2, color = Color32_from_black_alpha 0x20\<rparr>) (sample_ctx None None None None) False
       (shadow_width (with_shadow CustomFrame_default
         \<lparr>offset = Vec2_new 15 0, blur = 18, spread = 2, color = Color32_from_black_alpha 0x20\<rparr>) False))))
     (fr_outer_margin (panel_frame (with_shadow CustomFrame_default
       \<lparr>offset = Vec2_new 15 0, blur = 18, spread = 2, color = Color32_from_black_alpha 0x20\<rparr>) (sample_ctx None None None None) False
       (shadow_width (with_shadow CustomFrame_default
         \<lparr>offset = Vec2_new 15 0, blur = 18, spread = 2, color = Color32_from_black_alpha 0x20\<rparr>) False)))"
  using shadow_within_gutter_iff [of CustomFrame_default "sample_ctx None None None None"]
    shadow_within_gutter_iff [of "with_shadow CustomFrame_default
       \<lparr>offset = Vec2_new 15 0, blur = 18, spread = 2, color = Color32_from_black_alpha 0x20\<rparr>" "sample_ctx None None None None"]
  by (simp add: with_shadow_def CustomFrame_default_def Vec2_ZERO_def)

text \<open>
  C27 (error).  A viewport narrower or lower than twice the shadow gutter leaves an
  empty (inverted) view rectangle: for a well-formed style the frame then only
  paints its panel wherever the pointer is, so the window can be neither dragged
  nor resized through the frame.
\<close>

theorem small_viewport_no_effect:
  assumes "frame_wf self"
    and "rect_width (clip_rect (ctx_in c)) < 2 * shadow_width self (is_maximized_of c) \<or>
         rect_height (clip_rect (ctx_in c)) < 2 * shadow_width self (is_maximized_of c)"
  shows "frame_effects self c = panel_painted self c"
proof -
  from assms(2) have "\<not> rect_contains (view_rect_of c (shadow_width self (is_maximized_of c))) p" for p
    by (auto simp: rect_contains_def)
  with assms(1) show ?thesis
    by (rule outside_view_panel_only)
qed

theorem small_viewport_no_effect_witness:
  "frame_effects CustomFrame_default
     \<lparr>ctx_in = (ctx_in (sample_ctx (Some False) (Some (Pos2_new 15 60)) (Some caption_id) None))
                \<lparr>clip_rect := Rect_from_min_max (Pos2_new 0 0) (Pos2_new 30 120)\<rparr>,
      ctx_out = fresh_output\<rparr> =
   panel_painted CustomFrame_default
     \<lparr>ctx_in = (ctx_in (sample_ctx (Some False) (Some (Pos2_new 15 60)) (Some caption_id) None))
                \<lparr>clip_rect := Rect_from_min_max (Pos2_new 0 0) (Pos2_new 30 120)\<rparr>,
      ctx_out = fresh_output\<rparr>"
proof (rule small_viewport_no_effect)
  show "frame_wf CustomFrame_default"
    by (simp add: frame_wf_def margin_nonneg_def CustomFrame_default_def)
  show "rect_width (clip_rect (ctx_in \<lparr>ctx_in = (ctx_in (sample_ctx (Some False) (Some (Pos2_new 15 60)) (Some caption_id) None))
                \<lparr>clip_rect := Rect_from_min_max (Pos2_new 0 0) (Pos2_new 30 120)\<rparr>, ctx_out = fresh_output\<rparr>)) <
    2 * shadow_width CustomFrame_default (is_maximized_of \<lparr>ctx_in = (ctx_in (sample_ctx (Some False) (Some (Pos2_new 15 60)) (Some caption_id) None))
                \<lparr>clip_rect := Rect_from_min_max (Pos2_new 0 0) (Pos2_new 30 120)\<rparr>, ctx_out = fresh_output\<rparr>) \<or>
    rect_height (clip_rect (ctx_in \<lparr>ctx_in = (ctx_in (sample_ctx (Some False) (Some (Pos2_new 15 60)) (Some caption_id) None))
                \<lparr>clip_rect := Rect_from_min_max (Pos2_new 0 0) (Pos2_new 30 120)\<rparr>, ctx_out = fresh_output\<rparr>)) <
    2 * shadow_width CustomFrame_default (is_maximized_of \<lparr>ctx_in = (ctx_in (sample_ctx (Some False) (Some (Pos2_new 15 60)) (Some caption_id) None))
                \<lparr>clip_rect := Rect_from_min_max (Pos2_new 0 0) (Pos2_new 30 120)\<rparr>, ctx_out = fresh_output\<rparr>)"
    by (simp add: sample_ctx_def is_maximized_of_def CustomFrame_default_def)
qed

end
