(* ===== verification/ExampleApp.thy ===== *)
theory ExampleApp
  imports FrameSpec
begin

text \<open>
  The example application of src/examples/custom_frame.rs: the \<open>TestApp\<close>
  struct (lines 4--7), \<open>TestApp::new\<close> (lines 10--20), which builds the default
  frame with a caption covering the whole window, \<open>clear_color\<close> (lines 24--26),
  \<open>update\<close> (lines 28--36), which shows the frame with a content closure that
  draws a heading and sends \<open>Close\<close> when its button is clicked, and the native
  options of \<open>main\<close> (lines 41--47).  The content closure adds the heading
  with the tip text and the Close button, in this order, and sends \<open>Close\<close>
  when the button is clicked.  The lemmas show that every pointer of the core
  area is in the caption (the whole window drags), that the application's
  commands are the frame's followed by the content's \<open>Close\<close>, and that for a
  viewport of whole points the app's rectangles have integer corners.
\<close>

record test_app =
  tip :: string
  app_frame :: custom_frame

definition TestApp_new :: test_app where
  "TestApp_new =
     \<lparr>tip = ''This window is for testing a custom frame window.'',
      app_frame = with_caption CustomFrame_default
                    (Rect_from_min_max (Pos2_new 0 0) (Pos2_new f32_MAX f32_MAX))\<rparr>"

definition clear_color :: "f32 list" where
  "clear_color = [0, 0, 0, 0]"

definition close_button :: widget_id where
  "close_button = ''Close''"

definition app_content :: "test_app \<Rightarrow> ctx \<Rightarrow> unit \<times> ctx" where
  "app_content self ui =
     (let ui1 = ui_heading (tip self) ui;
          (clicked, ui2) = ui_button close_button ui1
      in ((), if clicked then send_viewport_cmd Close ui2 else ui2))"

definition app_update :: "test_app \<Rightarrow> ctx \<Rightarrow> ctx" where
  "app_update self c = snd (show_custom_frame (app_frame self) c (app_content self))"

record native_options =
  inner_size :: vec2
  decorations :: bool
  transparent :: bool

definition app_native_options :: native_options where
  "app_native_options = \<lparr>inner_size = Vec2_new 320 120, decorations = False, transparent = True\<rparr>"

subsection \<open>Lemmas\<close>

lemma app_frame_new [simp]:
  "sizebox (app_frame TestApp_new) = Margin_same 4"
  "caption (app_frame TestApp_new) = Rect_from_min_max (Pos2_new 0 0) (Pos2_new f32_MAX f32_MAX)"
  "shadow (app_frame TestApp_new) = shadow CustomFrame_default"
  by (simp_all add: TestApp_new_def with_caption_def CustomFrame_default_def)

lemma app_frame_wf: "frame_wf (app_frame TestApp_new)"
  by (simp add: frame_wf_def margin_nonneg_def CustomFrame_default_def)

text \<open>The application's context after a frame: the frame's effects, then the button.\<close>

lemma app_update_frame_then_content:
  "app_update self c =
     (let c2 = add_widget (Button close_button) (add_widget (Heading (tip self)) (frame_effects (app_frame self) c))
      in if clicked_id (ctx_in c) = Some close_button then send_viewport_cmd Close c2 else c2)"
  by (simp add: app_update_def show_custom_frame_split app_content_def ui_heading_def ui_button_def
      Let_def)

lemma app_update_cmds:
  "viewport_cmds (ctx_out (app_update self c)) =
     viewport_cmds (ctx_out c) @ emitted_cmds (app_frame self) c @
     (if clicked_id (ctx_in c) = Some close_button then [Close] else [])"
  by (simp add: app_update_frame_then_content viewport_cmds_emitted Let_def)

lemma app_update_in [simp]: "ctx_in (app_update self c) = ctx_in c"
  by (simp add: app_update_frame_then_content Let_def)

text \<open>Inside the core area the example's caption always contains the pointer.\<close>

lemma app_caption_covers_core:
  assumes "rect_width (clip_rect (ctx_in c)) \<le> f32_MAX" "rect_height (clip_rect (ctx_in c)) \<le> f32_MAX"
    and "rect_contains (sizebox_inner_of (app_frame TestApp_new)
           (view_rect_of c (shadow_width (app_frame TestApp_new) (is_maximized_of c)))) (pointer_pos c)"
  shows "rect_contains (g_cap (geometry_of (app_frame TestApp_new) c)) (pointer_pos c)"
proof -
  have sw: "0 \<le> shadow_width (app_frame TestApp_new) (is_maximized_of c)"
    by (rule frame_wf_shadow_width [OF app_frame_wf])
  with assms show ?thesis
    by (simp add: caption_rect_of_def rect_contains_translate sizebox_inner_of_def)
      (auto simp: rect_contains_def)
qed

subsection \<open>Claims about the example\<close>

text \<open>
  C14 (functional).  The example's caption covers the whole window: for any viewport
  of representable size, maximized or not, a drag that starts on the caption with the
  pointer anywhere in the core area, and no double click or button click, makes the
  application send exactly StartDrag.
\<close>

theorem whole_window_draggable:
  assumes "rect_width (clip_rect (ctx_in c)) \<le> f32_MAX" "rect_height (clip_rect (ctx_in c)) \<le> f32_MAX"
    and "rect_contains (sizebox_inner_of (app_frame TestApp_new)
           (view_rect_of c (shadow_width (app_frame TestApp_new) (is_maximized_of c)))) (pointer_pos c)"
    and "drag_started_id (ctx_in c) = Some caption_id"
    and "double_clicked_id (ctx_in c) \<noteq> Some caption_id"
    and "clicked_id (ctx_in c) \<noteq> Some close_button"
  shows "viewport_cmds (ctx_out (app_update TestApp_new c)) = viewport_cmds (ctx_out c) @ [StartDrag]"
proof -
  from app_caption_covers_core [OF assms(1-3)]
  have "zone_of (geometry_of (app_frame TestApp_new) c) = CaptionZone"
    by (rule zone_of_caption)
  with assms(4-6) show ?thesis
    by (simp add: app_update_cmds zone_cmds_def)
qed

theorem whole_window_draggable_witness:
  "viewport_cmds (ctx_out (app_update TestApp_new
     (sample_ctx (Some True) (Some (Pos2_new 160 60)) (Some caption_id) None))) = [StartDrag]"
proof -
  let ?c = "sample_ctx (Some True) (Some (Pos2_new 160 60)) (Some caption_id) None"
  have h: "rect_width (clip_rect (ctx_in ?c)) \<le> f32_MAX" "rect_height (clip_rect (ctx_in ?c)) \<le> f32_MAX"
    "rect_contains (sizebox_inner_of (app_frame TestApp_new)
           (view_rect_of ?c (shadow_width (app_frame TestApp_new) (is_maximized_of ?c)))) (pointer_pos ?c)"
    "drag_started_id (ctx_in ?c) = Some caption_id"
    "double_clicked_id (ctx_in ?c) \<noteq> Some caption_id"
    "clicked_id (ctx_in ?c) \<noteq> Some close_button"
    by (simp_all add: sample_ctx_def geometry_eval f32_MAX_def CustomFrame_default_def)
  show ?thesis
    using whole_window_draggable [OF h] by (simp add: sample_ctx_def fresh_output_def)
qed

text \<open>
  C15 (functional).  When the content's Close button is clicked, the application's
  commands are the frame's commands followed by Close, and the frame itself never
  sends Close.
\<close>

theorem close_button_sends_close_last:
  assumes "clicked_id (ctx_in c) = Some close_button"
  shows "viewport_cmds (ctx_out (app_update app c)) =
           viewport_cmds (ctx_out c) @ emitted_cmds (app_frame app) c @ [Close] \<and>
         Close \<notin> set (emitted_cmds (app_frame app) c)"
  using assms by (simp add: app_update_cmds)

theorem close_button_sends_close_last_witness:
  "viewport_cmds (ctx_out (app_update TestApp_new
      \<lparr>ctx_in = ctx_in (sample_ctx (Some False) (Some (Pos2_new 160 60)) (Some caption_id) None)
         \<lparr>clicked_id := Some close_button\<rparr>, ctx_out = fresh_output\<rparr>)) = [StartDrag, Close]"
proof -
  let ?c = "\<lparr>ctx_in = ctx_in (sample_ctx (Some False) (Some (Pos2_new 160 60)) (Some caption_id) None)
         \<lparr>clicked_id := Some close_button\<rparr>, ctx_out = fresh_output\<rparr>"
  have h: "clicked_id (ctx_in ?c) = Some close_button" by simp
  show ?thesis
    using close_button_sends_close_last [OF h, of TestApp_new]
    by (simp add: sample_ctx_def fresh_output_def zone_eval geometry_eval CustomFrame_default_def f32_MAX_def)
qed

text \<open>
  C28 (bounds).  For the example app in a viewport whose size is a whole number of
  points up to \<open>2^23\<close>, the rectangles the frame computes have integer corners
  between -24 and \<open>2^23\<close>: the view rectangle is the viewport less the gutter s
  (20, or 0 when maximized), the inner rectangle is 4 further in, and the caption
  rectangle is the inner one.  Integers of that size are exact in f32 (24-bit
  significand), so on such viewports the model's real arithmetic and f32 compute the
  same rectangles; the one inexact intermediate, the caption corner
  \<open>f32::MAX + s\<close>, only enters a minimum with a smaller value.
\<close>

theorem app_geometry_integral:
  assumes "clip_rect (ctx_in c) = Rect_from_min_max (Pos2_new 0 0) (Pos2_new (of_int w) (of_int h))"
    and "0 \<le> w" "w \<le> 2 ^ 23" "0 \<le> h" "h \<le> 2 ^ 23"
  shows "let s = (if is_maximized_of c then 0 else 20 :: int); g = geometry_of (app_frame TestApp_new) c in
     g_view g = Rect_from_min_max (Pos2_new (of_int s) (of_int s)) (Pos2_new (of_int (w - s)) (of_int (h - s))) \<and>
     g_core g = Rect_from_min_max (Pos2_new (of_int (s + 4)) (of_int (s + 4)))
                  (Pos2_new (of_int (w - s - 4)) (of_int (h - s - 4))) \<and>
     g_cap g = g_core g"
proof -
  have wh: "real_of_int w \<le> 2 ^ 23" "real_of_int h \<le> 2 ^ 23"
    using assms(3,5) by simp_all
  have big: "(2 ^ 23 :: real) \<le> f32_MAX" by (simp add: f32_MAX_def)
  show ?thesis
    using assms(1) wh big
    by (auto simp: Let_def rect_eq_iff geometry_eval pos2_max_def pos2_min_def CustomFrame_default_def)
qed

theorem app_geometry_integral_witness:
  "let s = (if is_maximized_of (sample_ctx (Some False) (Some (Pos2_new 160 60)) None None) then 0 else 20 :: int);
       g = geometry_of (app_frame TestApp_new) (sample_ctx (Some False) (Some (Pos2_new 160 60)) None None) in
     g_view g = Rect_from_min_max (Pos2_new (of_int s) (of_int s)) (Pos2_new (of_int (320 - s)) (of_int (120 - s))) \<and>
     g_core g = Rect_from_min_max (Pos2_new (of_int (s + 4)) (of_int (s + 4)))
                  (Pos2_new (of_int (320 - s - 4)) (of_int (120 - s - 4))) \<and>
     g_cap g = g_core g"
  by (rule app_geometry_integral) (simp_all add: sample_ctx_def)

end
