(* ===== verification/Window.thy ===== *)
theory Window
  imports ExampleApp
begin

text \<open>
  The example application running frame after frame against the host window.
  eframe calls \<open>TestApp::update\<close> once per frame with a fresh output; the
  windowing backend then carries out the viewport commands the frame sent, in
  order: \<open>Maximized b\<close> sets the window's maximized state, \<open>Close\<close> closes
  it, and \<open>StartDrag\<close> and \<open>BeginResize\<close> hand the pointer to the operating
  system's move and resize loops, whose geometry is not modelled.  The backend is
  not code of this repository; \<open>apply_cmd\<close> models the contract of
  \<open>ViewportCommand\<close> as egui documents it.  The window keeps a log of every
  frame (the maximized state at its start, its input and its commands).

  \<open>app_step reports app\<close> is one frame: any input the environment delivers,
  provided its \<open>maximized\<close> field is what the backend reports (the window's
  state when \<open>reports\<close> holds, \<open>None\<close> otherwise).  \<open>reachable\<close> closes
  the initial window under frames.  With a reporting backend two invariants hold in
  every reachable state, by rule induction: no frame that started maximized sent a
  resize command, and every \<open>Maximized\<close> command toggled the state the frame
  started in; and the window is maximized exactly when an odd number of its
  frames sent \<open>Maximized\<close>.  Without it the first invariant fails.  The loop
  that drives these frames is in \<open>EventLoop\<close>.
\<close>

record frame_log =
  log_max :: bool
  log_input :: egui_input
  log_cmds :: "viewport_command list"

record window =
  win_maximized :: bool
  win_closed :: bool
  win_log :: "frame_log list"

definition apply_cmd :: "viewport_command \<Rightarrow> window \<Rightarrow> window" where
  "apply_cmd cmd w =
     (case cmd of
        Close \<Rightarrow> w\<lparr>win_closed := True\<rparr>
      | Maximized b \<Rightarrow> w\<lparr>win_maximized := b\<rparr>
      | StartDrag \<Rightarrow> w
      | BeginResize _ \<Rightarrow> w)"

definition initial_window :: window where
  "initial_window = \<lparr>win_maximized = False, win_closed = False, win_log = []\<rparr>"

definition backend_input :: "bool \<Rightarrow> window \<Rightarrow> egui_input \<Rightarrow> bool" where
  "backend_input reports w inp \<longleftrightarrow>
     vp_maximized inp = (if reports then Some (win_maximized w) else None)"

definition frame_cmds :: "test_app \<Rightarrow> egui_input \<Rightarrow> viewport_command list" where
  "frame_cmds app inp = viewport_cmds (ctx_out (app_update app \<lparr>ctx_in = inp, ctx_out = fresh_output\<rparr>))"

definition run_frame :: "test_app \<Rightarrow> window \<Rightarrow> egui_input \<Rightarrow> window" where
  "run_frame app w inp =
     fold apply_cmd (frame_cmds app inp)
       (w\<lparr>win_log := win_log w @ [\<lparr>log_max = win_maximized w, log_input = inp,
                                    log_cmds = frame_cmds app inp\<rparr>]\<rparr>)"

inductive app_step :: "bool \<Rightarrow> test_app \<Rightarrow> window \<Rightarrow> window \<Rightarrow> bool" where
  frame: "\<not> win_closed w \<Longrightarrow> backend_input reports w inp \<Longrightarrow> app_step reports app w (run_frame app w inp)"

inductive reachable :: "bool \<Rightarrow> test_app \<Rightarrow> window \<Rightarrow> bool" for reports app where
  init: "reachable reports app initial_window"
| step: "reachable reports app w \<Longrightarrow> app_step reports app w w' \<Longrightarrow> reachable reports app w'"

definition no_resize_while_maximized :: "window \<Rightarrow> bool" where
  "no_resize_while_maximized w \<longleftrightarrow>
     (\<forall>l \<in> set (win_log w). log_max l \<longrightarrow> (\<forall>d. BeginResize d \<notin> set (log_cmds l)))"

definition maximize_only_toggles :: "window \<Rightarrow> bool" where
  "maximize_only_toggles w \<longleftrightarrow>
     (\<forall>l \<in> set (win_log w). \<forall>b. Maximized b \<in> set (log_cmds l) \<longrightarrow> b = (\<not> log_max l))"

definition frame_input :: "bool option \<Rightarrow> pos2 \<Rightarrow> widget_id option \<Rightarrow> widget_id option \<Rightarrow> egui_input" where
  "frame_input m p d dc = ctx_in (sample_ctx m (Some p) d dc)"

text \<open>How many logged frames sent a \<open>Maximized\<close> command.\<close>

definition is_maximize_cmd :: "viewport_command \<Rightarrow> bool" where
  "is_maximize_cmd cmd = (case cmd of Maximized _ \<Rightarrow> True | _ \<Rightarrow> False)"

definition maximize_count :: "window \<Rightarrow> nat" where
  "maximize_count w = length (filter (\<lambda>l. list_ex is_maximize_cmd (log_cmds l)) (win_log w))"

text \<open>The abstract window the frames promise: the pair (maximized, closed) after a
  frame, from the frame's zone.  A double click in the caption zone toggles the
  maximized state, a click on Close closes the window, nothing else changes either.\<close>

definition window_spec_step :: "custom_frame \<Rightarrow> bool \<times> bool \<Rightarrow> egui_input \<Rightarrow> bool \<times> bool" where
  "window_spec_step f st inp =
     (let z = zone_of (geometry_of f \<lparr>ctx_in = inp, ctx_out = fresh_output\<rparr>) in
      (if z = CaptionZone \<and> double_clicked_id inp = Some caption_id then \<not> fst st else fst st,
       snd st \<or> clicked_id inp = Some close_button))"

subsection \<open>Lemmas\<close>

inductive_cases app_stepE: "app_step reports app w w'"

lemma frame_cmds_eq:
  "frame_cmds app inp =
     emitted_cmds (app_frame app) \<lparr>ctx_in = inp, ctx_out = fresh_output\<rparr> @
     (if clicked_id inp = Some close_button then [Close] else [])"
  by (simp add: frame_cmds_def app_update_cmds fresh_output_def del: frame_effects_observe)

lemma fold_apply_cmd_log [simp]: "win_log (fold apply_cmd cmds w) = win_log w"
  by (induction cmds arbitrary: w) (simp_all add: apply_cmd_def split: viewport_command.splits)

lemma fold_apply_cmd_closed:
  "win_closed (fold apply_cmd cmds w) \<longleftrightarrow> win_closed w \<or> Close \<in> set cmds"
  by (induction cmds arbitrary: w) (auto simp: apply_cmd_def split: viewport_command.splits)

lemma fold_apply_cmd_maximized:
  "(\<forall>b. Maximized b \<in> set cmds \<longrightarrow> b = v) \<Longrightarrow>
   win_maximized (fold apply_cmd cmds w) = (if \<exists>b. Maximized b \<in> set cmds then v else win_maximized w)"
  by (induction cmds arbitrary: w) (auto simp: apply_cmd_def split: viewport_command.splits)

lemma run_frame_log:
  "win_log (run_frame app w inp) =
     win_log w @ [\<lparr>log_max = win_maximized w, log_input = inp, log_cmds = frame_cmds app inp\<rparr>]"
  by (simp add: run_frame_def)

lemma backend_reports_maximized:
  "backend_input True w inp \<Longrightarrow> is_maximized_of \<lparr>ctx_in = inp, ctx_out = out\<rparr> = win_maximized w"
  by (simp add: backend_input_def is_maximized_of_def)

lemma frame_cmds_resize:
  "BeginResize d \<in> set (frame_cmds app inp) \<Longrightarrow> \<not> is_maximized_of \<lparr>ctx_in = inp, ctx_out = fresh_output\<rparr>"
  by (auto simp: frame_cmds_eq dest: emitted_resize_not_maximized simp del: frame_effects_observe)

lemma frame_cmds_maximized:
  "Maximized b \<in> set (frame_cmds app inp) \<Longrightarrow> b = (\<not> is_maximized_of \<lparr>ctx_in = inp, ctx_out = fresh_output\<rparr>)"
  by (auto simp: frame_cmds_eq dest: emitted_maximized_toggles simp del: frame_effects_observe)

lemma app_step_frame:
  assumes "app_step True app w w'"
  obtains inp where "w' = run_frame app w inp"
    and "\<And>d. win_maximized w \<Longrightarrow> BeginResize d \<notin> set (frame_cmds app inp)"
    and "\<And>b. Maximized b \<in> set (frame_cmds app inp) \<Longrightarrow> b = (\<not> win_maximized w)"
proof -
  from assms obtain inp where w': "w' = run_frame app w inp" and b: "backend_input True w inp"
    by (auto elim: app_stepE)
  from b have m: "is_maximized_of \<lparr>ctx_in = inp, ctx_out = fresh_output\<rparr> = win_maximized w"
    by (rule backend_reports_maximized)
  show ?thesis
  proof
    show "w' = run_frame app w inp" by (rule w')
    show "BeginResize d \<notin> set (frame_cmds app inp)" if "win_maximized w" for d
      using frame_cmds_resize m that by blast
    show "b = (\<not> win_maximized w)" if "Maximized b \<in> set (frame_cmds app inp)" for b
      using frame_cmds_maximized [OF that] m by simp
  qed
qed

lemma list_ex_maximize_cmd: "list_ex is_maximize_cmd cmds \<longleftrightarrow> (\<exists>b. Maximized b \<in> set cmds)"
  by (induction cmds) (auto simp: is_maximize_cmd_def split: viewport_command.splits)

lemma run_frame_maximized:
  assumes "\<And>b. Maximized b \<in> set (frame_cmds app inp) \<Longrightarrow> b = (\<not> win_maximized w)"
  shows "win_maximized (run_frame app w inp) =
           (if \<exists>b. Maximized b \<in> set (frame_cmds app inp) then \<not> win_maximized w else win_maximized w)"
  unfolding run_frame_def
  by (subst fold_apply_cmd_maximized [where v = "\<not> win_maximized w"]) (use assms in auto)

lemma run_frame_maximize_count:
  "maximize_count (run_frame app w inp) =
     maximize_count w + (if \<exists>b. Maximized b \<in> set (frame_cmds app inp) then 1 else 0)"
  by (simp add: maximize_count_def run_frame_log list_ex_maximize_cmd)

lemma frame_cmds_has_maximized:
  "(\<exists>b. Maximized b \<in> set (frame_cmds app inp)) \<longleftrightarrow>
     zone_of (geometry_of (app_frame app) \<lparr>ctx_in = inp, ctx_out = fresh_output\<rparr>) = CaptionZone \<and>
     double_clicked_id inp = Some caption_id"
  by (auto simp: frame_cmds_eq zone_cmds_def split: zone.splits)

lemma run_frame_closed_iff:
  "win_closed (run_frame app w inp) \<longleftrightarrow> win_closed w \<or> clicked_id inp = Some close_button"
  by (simp add: run_frame_def fold_apply_cmd_closed frame_cmds_eq)

lemma app_step_keeps_invariants:
  assumes "app_step True app w w'"
  shows "no_resize_while_maximized w \<Longrightarrow> no_resize_while_maximized w'"
    and "maximize_only_toggles w \<Longrightarrow> maximize_only_toggles w'"
proof -
  from assms obtain inp where w': "w' = run_frame app w inp"
    and r: "\<And>d. win_maximized w \<Longrightarrow> BeginResize d \<notin> set (frame_cmds app inp)"
    and t: "\<And>b. Maximized b \<in> set (frame_cmds app inp) \<Longrightarrow> b = (\<not> win_maximized w)"
    using app_step_frame [OF assms] by blast
  show "no_resize_while_maximized w \<Longrightarrow> no_resize_while_maximized w'"
    using r by (auto simp: w' run_frame_log no_resize_while_maximized_def)
  show "maximize_only_toggles w \<Longrightarrow> maximize_only_toggles w'"
    using t by (auto simp: w' run_frame_log maximize_only_toggles_def)
qed

lemma reachable_invariants:
  "reachable True app w \<Longrightarrow> no_resize_while_maximized w \<and> maximize_only_toggles w"
proof (induction rule: reachable.induct)
  case init
  show ?case by (simp add: initial_window_def no_resize_while_maximized_def maximize_only_toggles_def)
next
  case (step w w')
  then show ?case by (blast intro: app_step_keeps_invariants)
qed


text \<open>The commands of the example's frames used in the runs below.\<close>

lemma frame_cmds_example:
  "frame_cmds TestApp_new (frame_input (Some False) (Pos2_new 160 60) None (Some caption_id)) = [Maximized True]"
  "frame_cmds TestApp_new (frame_input None (Pos2_new 160 60) None (Some caption_id)) = [Maximized True]"
  "frame_cmds TestApp_new (frame_input (Some True) (Pos2_new 21 60) (Some sizebox_id) None) = []"
  "frame_cmds TestApp_new (frame_input None (Pos2_new 21 60) (Some sizebox_id) None) = [BeginResize West]"
  by (simp_all add: frame_cmds_eq frame_input_def sample_ctx_def zone_eval geometry_eval
      CustomFrame_default_def f32_MAX_def caption_id_def sizebox_id_def close_button_def)

subsection \<open>Claims about runs\<close>

text \<open>
  C16 (invariant).  With a backend that reports the maximized state, in every
  reachable state of the example application no frame that started with the window
  maximized sent a BeginResize command.
\<close>

theorem reachable_no_resize_while_maximized:
  assumes "reachable True app w" and "l \<in> set (win_log w)" and "log_max l"
  shows "BeginResize d \<notin> set (log_cmds l)"
  using reachable_invariants [OF assms(1)] assms(2,3) by (auto simp: no_resize_while_maximized_def)

text \<open>
  C17 (safety).  With a reporting backend, a frame changes the maximized state
  exactly when it sent a Maximized command, and then to the negation of the state
  it started in: a double click on the caption toggles maximization.
\<close>

theorem maximize_toggles_state:
  assumes "app_step True app w w'"
  shows "win_maximized w' =
           (if \<exists>b. Maximized b \<in> set (log_cmds (last (win_log w'))) then \<not> win_maximized w
            else win_maximized w)"
proof -
  from assms obtain inp where w': "w' = run_frame app w inp"
    and t: "\<And>b. Maximized b \<in> set (frame_cmds app inp) \<Longrightarrow> b = (\<not> win_maximized w)"
    using app_step_frame [OF assms] by blast
  from t have "win_maximized (run_frame app w inp) =
      (if \<exists>b. Maximized b \<in> set (frame_cmds app inp) then \<not> win_maximized w else win_maximized w)"
    by (rule run_frame_maximized)
  then show ?thesis
    by (simp add: w' run_frame_log)
qed

text \<open>
  C18 (liveness).  From any window that is not closed, with either backend, one
  frame in which the Close button is clicked closes the window.
\<close>

theorem close_always_possible:
  assumes "\<not> win_closed w"
  shows "\<exists>w'. app_step reports app w w' \<and> win_closed w'"
proof -
  define inp where "inp = (frame_input (if reports then Some (win_maximized w) else None) (Pos2_new 0 0) None None)
    \<lparr>clicked_id := Some close_button\<rparr>"
  have "backend_input reports w inp"
    by (simp add: backend_input_def inp_def frame_input_def sample_ctx_def)
  with assms have "app_step reports app w (run_frame app w inp)"
    by (rule app_step.frame)
  moreover have "win_closed (run_frame app w inp)"
    by (simp add: run_frame_def apply_cmd_def frame_cmds_eq inp_def frame_input_def sample_ctx_def
        del: frame_effects_observe)
  ultimately show ?thesis by blast
qed

text \<open>
  C19 (safety).  With a backend that does not report the maximized state
  (viewport().maximized is None), the frame takes the window for not maximized: a
  reachable run of the example maximizes the window by a double click and then, in
  a frame that starts maximized, sends BeginResize West.
\<close>

theorem unreported_maximized_allows_resize:
  "\<exists>w l. reachable False TestApp_new w \<and> l \<in> set (win_log w) \<and> log_max l \<and>
         BeginResize West \<in> set (log_cmds l)"
proof -
  let ?i1 = "frame_input None (Pos2_new 160 60) None (Some caption_id)"
  let ?i2 = "frame_input None (Pos2_new 21 60) (Some sizebox_id) None"
  let ?w1 = "run_frame TestApp_new initial_window ?i1"
  let ?w2 = "run_frame TestApp_new ?w1 ?i2"
  have b: "backend_input False w (frame_input None p d dc)" for w p d dc
    by (simp add: backend_input_def frame_input_def sample_ctx_def)
  have w1: "win_maximized ?w1" "\<not> win_closed ?w1"
    by (simp_all add: run_frame_def frame_cmds_example apply_cmd_def initial_window_def)
  have "reachable False TestApp_new ?w1"
    by (rule reachable.step [OF reachable.init app_step.frame])
      (simp_all add: initial_window_def b)
  then have r: "reachable False TestApp_new ?w2"
    by (rule reachable.step [OF _ app_step.frame]) (simp_all add: w1 b)
  have "\<lparr>log_max = True, log_input = ?i2, log_cmds = [BeginResize West]\<rparr> \<in> set (win_log ?w2)"
    using w1 by (simp add: run_frame_log frame_cmds_example)
  with r show ?thesis by fastforce
qed

text \<open>
  C23 (invariant).  With a reporting backend, in every reachable state the window is
  maximized exactly when an odd number of its frames sent a Maximized command: the
  window's state is the parity of the double clicks on the caption that reached it.
\<close>

theorem reachable_maximized_parity:
  "reachable True app w \<Longrightarrow> win_maximized w = odd (maximize_count w)"
proof (induction rule: reachable.induct)
  case init
  show ?case by (simp add: initial_window_def maximize_count_def)
next
  case (step w w')
  from step.hyps(2) obtain inp where w': "w' = run_frame app w inp"
    and t: "\<And>b. Maximized b \<in> set (frame_cmds app inp) \<Longrightarrow> b = (\<not> win_maximized w)"
    using app_step_frame by blast
  show ?case
    using step.IH by (simp add: w' run_frame_maximized [OF t] run_frame_maximize_count)
qed

text \<open>
  C29 (refinement).  With a backend that reports the maximized state, one frame of
  the application moves the window's (maximized, closed) pair exactly as the
  abstract step computed from the frame's zone: a double click in the caption zone
  toggles maximization, a click on Close closes, and nothing else changes them.
\<close>

theorem run_frame_refines_window_spec:
  assumes "backend_input True w inp"
  shows "(win_maximized (run_frame app w inp), win_closed (run_frame app w inp)) =
           window_spec_step (app_frame app) (win_maximized w, win_closed w) inp"
proof -
  have m: "is_maximized_of \<lparr>ctx_in = inp, ctx_out = fresh_output\<rparr> = win_maximized w"
    using assms by (rule backend_reports_maximized)
  have t: "b = (\<not> win_maximized w)" if "Maximized b \<in> set (frame_cmds app inp)" for b
    using frame_cmds_maximized [OF that] m by simp
  show ?thesis
    by (simp add: window_spec_step_def run_frame_maximized [OF t] frame_cmds_has_maximized
        run_frame_closed_iff Let_def)
qed

theorem reachable_no_resize_while_maximized_witness:
  "\<exists>w l. reachable True TestApp_new w \<and> l \<in> set (win_log w) \<and> log_max l \<and>
         BeginResize West \<notin> set (log_cmds l)"
proof -
  let ?i1 = "frame_input (Some False) (Pos2_new 160 60) None (Some caption_id)"
  let ?i2 = "frame_input (Some True) (Pos2_new 21 60) (Some sizebox_id) None"
  let ?w1 = "run_frame TestApp_new initial_window ?i1"
  let ?w2 = "run_frame TestApp_new ?w1 ?i2"
  let ?l = "\<lparr>log_max = True, log_input = ?i2, log_cmds = []\<rparr>"
  have w1: "win_maximized ?w1" "\<not> win_closed ?w1"
    by (simp_all add: run_frame_def frame_cmds_example apply_cmd_def initial_window_def)
  have "reachable True TestApp_new ?w1"
    by (rule reachable.step [OF reachable.init app_step.frame])
      (simp_all add: initial_window_def backend_input_def frame_input_def sample_ctx_def)
  moreover have "backend_input True ?w1 ?i2"
    using w1 by (simp add: backend_input_def) (simp add: frame_input_def sample_ctx_def)
  ultimately have r: "reachable True TestApp_new ?w2"
    using w1 by (blast intro: reachable.step app_step.frame)
  have l: "?l \<in> set (win_log ?w2)"
    using w1 by (simp add: run_frame_log frame_cmds_example)
  have "BeginResize West \<notin> set (log_cmds ?l)"
    by (rule reachable_no_resize_while_maximized [OF r l]) simp
  with r l show ?thesis by fastforce
qed

theorem maximize_toggles_state_witness:
  "app_step True TestApp_new initial_window
     (run_frame TestApp_new initial_window (frame_input (Some False) (Pos2_new 160 60) None (Some caption_id))) \<and>
   win_maximized (run_frame TestApp_new initial_window (frame_input (Some False) (Pos2_new 160 60) None (Some caption_id)))"
proof -
  have s: "app_step True TestApp_new initial_window
     (run_frame TestApp_new initial_window (frame_input (Some False) (Pos2_new 160 60) None (Some caption_id)))"
    by (rule app_step.frame) (simp_all add: initial_window_def backend_input_def frame_input_def sample_ctx_def)
  show ?thesis
    using s maximize_toggles_state [OF s]
    by (simp add: run_frame_log frame_cmds_example initial_window_def ex_bool_eq)
qed

theorem close_always_possible_witness:
  "\<not> win_closed initial_window \<and> (\<exists>w'. app_step False TestApp_new initial_window w' \<and> win_closed w')"
proof -
  have h: "\<not> win_closed initial_window" by (simp add: initial_window_def)
  show ?thesis using h close_always_possible [OF h, of False TestApp_new] by blast
qed

theorem reachable_maximized_parity_witness:
  "reachable True TestApp_new
     (run_frame TestApp_new initial_window (frame_input (Some False) (Pos2_new 160 60) None (Some caption_id))) \<and>
   win_maximized (run_frame TestApp_new initial_window (frame_input (Some False) (Pos2_new 160 60) None (Some caption_id))) =
     odd (maximize_count (run_frame TestApp_new initial_window (frame_input (Some False) (Pos2_new 160 60) None (Some caption_id))))"
proof -
  have r: "reachable True TestApp_new
     (run_frame TestApp_new initial_window (frame_input (Some False) (Pos2_new 160 60) None (Some caption_id)))"
    by (rule reachable.step [OF reachable.init app_step.frame])
      (simp_all add: initial_window_def backend_input_def frame_input_def sample_ctx_def)
  show ?thesis using r reachable_maximized_parity [OF r] by simp
qed

theorem run_frame_refines_window_spec_witness:
  "(win_maximized (run_frame TestApp_new initial_window (frame_input (Some False) (Pos2_new 160 60) None (Some caption_id))),
    win_closed (run_frame TestApp_new initial_window (frame_input (Some False) (Pos2_new 160 60) None (Some caption_id)))) =
   (True, False)"
proof -
  have h: "backend_input True initial_window (frame_input (Some False) (Pos2_new 160 60) None (Some caption_id))"
    by (simp add: initial_window_def backend_input_def frame_input_def sample_ctx_def)
  show ?thesis
    unfolding run_frame_refines_window_spec [OF h]
    by (simp add: window_spec_step_def initial_window_def frame_input_def sample_ctx_def zone_eval geometry_eval
        CustomFrame_default_def f32_MAX_def caption_id_def close_button_def Let_def)
qed

end
