(* ===== verification/EventLoop.thy ===== *)
theory EventLoop
  imports Window
begin

text \<open>
  The example's \<open>main\<close> (src/examples/custom_frame.rs, lines 39--58) and the
  event loop of \<open>eframe::run_native\<close> it calls.  \<open>main\<close> builds the native
  options and hands eframe a creator closure that builds \<open>TestApp::new\<close>;
  \<open>run_native\<close> then runs frames until the window is closed and returns.
  eframe is not code of this repository: \<open>event_loop\<close> models its documented
  behaviour.  Before each frame the backend fills in the viewport's maximized state
  (\<open>backend_view\<close>, the window's state or \<open>None\<close>); the rest of the \<open>n\<close>-th
  frame's input is the environment's \<open>inputs n\<close>; the frame is \<open>run_frame\<close>.
  The loop may run for ever, so it is a \<open>partial_function (option)\<close>: \<open>None\<close>
  is "does not return".  The claims say exactly when it returns (some frame clicks
  Close), in which order it consumes the inputs, and that the window it returns is
  reachable, so the window invariants hold there.  \<open>run_native\<close>'s own errors
  (no display, no graphics context) are not modelled; the model's \<open>main\<close> returns
  the final window where the code returns \<open>Ok(())\<close>.
\<close>

definition backend_view :: "bool \<Rightarrow> window \<Rightarrow> egui_input \<Rightarrow> egui_input" where
  "backend_view reports w inp = inp\<lparr>vp_maximized := (if reports then Some (win_maximized w) else None)\<rparr>"

partial_function (option) event_loop ::
  "bool \<Rightarrow> test_app \<Rightarrow> (nat \<Rightarrow> egui_input) \<Rightarrow> nat \<Rightarrow> window \<Rightarrow> window option" where
  "event_loop reports app inputs n w =
     (if win_closed w then Some w
      else event_loop reports app inputs (Suc n) (run_frame app w (backend_view reports w (inputs n))))"

definition run_native ::
  "string \<Rightarrow> native_options \<Rightarrow> (unit \<Rightarrow> test_app) \<Rightarrow> bool \<Rightarrow> (nat \<Rightarrow> egui_input) \<Rightarrow> window option" where
  "run_native title options app_creator reports inputs =
     event_loop reports (app_creator ()) inputs 0 initial_window"

definition window_title :: string where
  "window_title = ''Custom Frame Test''"

definition main :: "bool \<Rightarrow> (nat \<Rightarrow> egui_input) \<Rightarrow> window option" where
  "main reports inputs = run_native window_title app_native_options (\<lambda>cc. TestApp_new) reports inputs"

text \<open>An input stream for the concrete runs: the pointer rests at (1,1) and
  frame \<open>k\<close> clicks Close.\<close>

definition close_at :: "nat \<Rightarrow> nat \<Rightarrow> egui_input" where
  "close_at k j =
     (if j = k then (frame_input None (Pos2_new 1 1) None None)\<lparr>clicked_id := Some close_button\<rparr>
      else frame_input None (Pos2_new 1 1) None None)"

subsection \<open>Lemmas\<close>

lemma backend_view_fields [simp]:
  "clicked_id (backend_view reports w inp) = clicked_id inp"
  "(backend_view reports w inp)\<lparr>vp_maximized := m\<rparr> = inp\<lparr>vp_maximized := m\<rparr>"
  by (simp_all add: backend_view_def)

lemma backend_view_input: "backend_input reports w (backend_view reports w inp)"
  by (simp add: backend_input_def backend_view_def)

lemma event_loop_closed: "win_closed w \<Longrightarrow> event_loop reports app inputs n w = Some w"
  by (simp add: event_loop.simps)

lemma event_loop_frame:
  "\<not> win_closed w \<Longrightarrow>
   event_loop reports app inputs n w =
     event_loop reports app inputs (Suc n) (run_frame app w (backend_view reports w (inputs n)))"
  by (subst event_loop.simps) simp

lemma main_event_loop: "main reports inputs = event_loop reports TestApp_new inputs 0 initial_window"
  by (simp add: main_def run_native_def)

text \<open>Total correctness: from frame \<open>n\<close> on, a later frame that clicks Close
  makes the loop return a closed window.\<close>

lemma event_loop_returns:
  assumes close: "clicked_id (inputs k) = Some close_button" and "n \<le> k"
  shows "\<exists>w'. event_loop reports app inputs n w = Some w' \<and> win_closed w'"
  using assms(2)
proof (induction "k - n" arbitrary: n w)
  case 0
  show ?case
  proof (cases "win_closed w")
    case True
    then show ?thesis by (simp add: event_loop_closed)
  next
    case False
    from 0 have "n = k" by simp
    with close have "win_closed (run_frame app w (backend_view reports w (inputs n)))"
      by (simp add: run_frame_closed_iff)
    with False show ?thesis by (simp add: event_loop_frame event_loop_closed)
  qed
next
  case (Suc d)
  show ?case
  proof (cases "win_closed w")
    case True
    then show ?thesis by (simp add: event_loop_closed)
  next
    case False
    from Suc.hyps(2) Suc.prems have "d = k - Suc n" "Suc n \<le> k" by arith+
    then obtain w' where "event_loop reports app inputs (Suc n)
        (run_frame app w (backend_view reports w (inputs n))) = Some w' \<and> win_closed w'"
      using Suc.hyps(1) by blast
    with False show ?thesis by (simp add: event_loop_frame)
  qed
qed

text \<open>Partial correctness, by fixpoint induction: a returned window is closed, and
  it was closed already or a frame from \<open>n\<close> on clicked Close.\<close>

lemma event_loop_returned:
  assumes "event_loop reports app inputs n w = Some w'"
  shows "win_closed w' \<and> (win_closed w \<or> (\<exists>k\<ge>n. clicked_id (inputs k) = Some close_button))"
proof (rule event_loop.raw_induct [where P = "\<lambda>r a i m v v'. win_closed v' \<and>
    (win_closed v \<or> (\<exists>k\<ge>m. clicked_id (i k) = Some close_button))", OF _ assms])
  fix f r a i m v v'
  assume IH: "\<And>r a i m v v'. f r a i m v = Some v' \<Longrightarrow>
      win_closed v' \<and> (win_closed v \<or> (\<exists>k\<ge>m. clicked_id (i k) = Some close_button))"
    and eq: "(if win_closed v then Some v
       else f r a i (Suc m) (run_frame a v (backend_view r v (i m)))) = Some v'"
  show "win_closed v' \<and> (win_closed v \<or> (\<exists>k\<ge>m. clicked_id (i k) = Some close_button))"
  proof (cases "win_closed v")
    case True
    with eq show ?thesis by simp
  next
    case False
    with eq have "f r a i (Suc m) (run_frame a v (backend_view r v (i m))) = Some v'" by simp
    from IH [OF this] False show ?thesis
      by (auto simp: run_frame_closed_iff intro: Suc_leD)
  qed
qed

text \<open>Each iteration is a step of \<open>app_step\<close>, so the loop returns a reachable window.\<close>

lemma event_loop_reachable:
  assumes "event_loop reports app inputs n w = Some w'"
  shows "reachable reports app w \<longrightarrow> reachable reports app w'"
proof (rule event_loop.raw_induct [where P = "\<lambda>r a i m v v'. reachable r a v \<longrightarrow> reachable r a v'",
    OF _ assms])
  fix f r a i m v v'
  assume IH: "\<And>r a i m v v'. f r a i m v = Some v' \<Longrightarrow> reachable r a v \<longrightarrow> reachable r a v'"
    and eq: "(if win_closed v then Some v
       else f r a i (Suc m) (run_frame a v (backend_view r v (i m)))) = Some v'"
  show "reachable r a v \<longrightarrow> reachable r a v'"
  proof
    assume v: "reachable r a v"
    show "reachable r a v'"
    proof (cases "win_closed v")
      case True
      with eq v show ?thesis by simp
    next
      case False
      with eq have f: "f r a i (Suc m) (run_frame a v (backend_view r v (i m))) = Some v'" by simp
      from False backend_view_input have "app_step r a v (run_frame a v (backend_view r v (i m)))"
        by (rule app_step.frame)
      with v have "reachable r a (run_frame a v (backend_view r v (i m)))"
        by (rule reachable.step)
      with IH [OF f] show ?thesis by blast
    qed
  qed
qed

text \<open>The loop consumes the inputs in order: up to the first frame \<open>k\<close> that
  clicks Close, frame \<open>j\<close> is logged with the environment's \<open>j\<close>-th input, up to
  the maximized field the backend fills in.\<close>

lemma event_loop_consumes:
  assumes close: "clicked_id (inputs k) = Some close_button"
    and before: "\<forall>j. n \<le> j \<longrightarrow> j < k \<longrightarrow> clicked_id (inputs j) \<noteq> Some close_button"
    and "n \<le> k" and "\<not> win_closed w"
  shows "\<exists>w'. event_loop reports app inputs n w = Some w' \<and>
    map (\<lambda>l. (log_input l)\<lparr>vp_maximized := None\<rparr>) (win_log w') =
      map (\<lambda>l. (log_input l)\<lparr>vp_maximized := None\<rparr>) (win_log w) @
      map (\<lambda>j. (inputs j)\<lparr>vp_maximized := None\<rparr>) [n..<Suc k]"
  using assms(2-4)
proof (induction "k - n" arbitrary: n w)
  case 0
  let ?w1 = "run_frame app w (backend_view reports w (inputs n))"
  from 0 have n: "n = k" by simp
  with close have "win_closed ?w1" by (simp add: run_frame_closed_iff)
  with 0 n show ?case by (simp add: event_loop_frame event_loop_closed run_frame_log)
next
  case (Suc d)
  let ?w1 = "run_frame app w (backend_view reports w (inputs n))"
  from Suc.hyps(2) Suc.prems(2) have d: "d = k - Suc n" "Suc n \<le> k" "n < k" by arith+
  with Suc.prems(1) have "\<not> win_closed ?w1" using Suc.prems(3) by (simp add: run_frame_closed_iff)
  with d Suc.prems(1) obtain w' where "event_loop reports app inputs (Suc n) ?w1 = Some w' \<and>
      map (\<lambda>l. (log_input l)\<lparr>vp_maximized := None\<rparr>) (win_log w') =
      map (\<lambda>l. (log_input l)\<lparr>vp_maximized := None\<rparr>) (win_log ?w1) @
      map (\<lambda>j. (inputs j)\<lparr>vp_maximized := None\<rparr>) [Suc n..<Suc k]"
    using Suc.hyps(1) [of "Suc n" ?w1] by auto
  with Suc.prems(3) d(3) show ?case
    by (simp add: event_loop_frame run_frame_log upt_conv_Cons)
qed

lemma close_at_clicked:
  "clicked_id (close_at k j) = Some close_button \<longleftrightarrow> j = k"
  by (simp add: close_at_def frame_input_def sample_ctx_def)

subsection \<open>Claims about the program's run\<close>

text \<open>
  C24 (termination).  The example's main returns exactly when some frame of the
  input stream clicks the Close button, with either backend: clicking Close ends
  the event loop, and nothing else does.
\<close>

theorem main_returns_iff_close:
  "(\<exists>w. main reports inputs = Some w) \<longleftrightarrow> (\<exists>k. clicked_id (inputs k) = Some close_button)"
proof
  assume "\<exists>w. main reports inputs = Some w"
  then obtain w where "event_loop reports TestApp_new inputs 0 initial_window = Some w"
    by (auto simp: main_event_loop)
  from event_loop_returned [OF this] show "\<exists>k. clicked_id (inputs k) = Some close_button"
    by (auto simp: initial_window_def)
next
  assume "\<exists>k. clicked_id (inputs k) = Some close_button"
  then obtain k where "clicked_id (inputs k) = Some close_button" by blast
  from event_loop_returns [where inputs = inputs and k = k and n = 0 and reports = reports
      and app = TestApp_new and w = initial_window, OF this]
  show "\<exists>w. main reports inputs = Some w"
    by (auto simp: main_event_loop)
qed

text \<open>
  C25 (functional).  When frame k is the first that clicks Close, main runs
  exactly the frames 0 to k, in order: the returned window's log holds one entry per
  frame, the j-th with the environment's j-th input (up to the maximized state the
  backend fills in).
\<close>

theorem main_consumes_inputs_in_order:
  assumes "clicked_id (inputs k) = Some close_button"
    and "\<forall>j<k. clicked_id (inputs j) \<noteq> Some close_button"
  shows "\<exists>w. main reports inputs = Some w \<and>
    map (\<lambda>l. (log_input l)\<lparr>vp_maximized := None\<rparr>) (win_log w) =
      map (\<lambda>j. (inputs j)\<lparr>vp_maximized := None\<rparr>) [0..<Suc k]"
  using event_loop_consumes [where inputs = inputs and k = k and n = 0 and w = initial_window
      and reports = reports and app = TestApp_new, OF assms(1)] assms(2)
  by (simp add: main_event_loop initial_window_def)

text \<open>
  C26 (invariant).  With a backend that reports the maximized state, the window
  main returns is a reachable state of the example application, closed, and no
  frame of its run sent a resize while maximized or a Maximized command that did not
  toggle the state.
\<close>

theorem main_final_window:
  assumes "main True inputs = Some w"
  shows "reachable True TestApp_new w \<and> win_closed w \<and>
         no_resize_while_maximized w \<and> maximize_only_toggles w"
proof -
  from assms have ret: "event_loop True TestApp_new inputs 0 initial_window = Some w"
    by (simp add: main_event_loop)
  have r: "reachable True TestApp_new w"
    using event_loop_reachable [OF ret] reachable.init by blast
  show ?thesis
    using r reachable_invariants [OF r] event_loop_returned [OF ret] by blast
qed

theorem main_returns_iff_close_witness:
  "(\<exists>w. main True (close_at 2) = Some w) \<and> clicked_id (close_at 2 2) = Some close_button"
proof -
  have c: "clicked_id (close_at 2 2) = Some close_button" by (simp add: close_at_clicked)
  then have "\<exists>k. clicked_id (close_at 2 k) = Some close_button" by blast
  with c show ?thesis using main_returns_iff_close [of True "close_at 2"] by blast
qed

theorem main_consumes_inputs_in_order_witness:
  "clicked_id (close_at 1 1) = Some close_button \<and> clicked_id (close_at 1 0) \<noteq> Some close_button \<and>
   (\<exists>w. main False (close_at 1) = Some w \<and>
      map (\<lambda>l. (log_input l)\<lparr>vp_maximized := None\<rparr>) (win_log w) =
        [(close_at 1 0)\<lparr>vp_maximized := None\<rparr>, (close_at 1 1)\<lparr>vp_maximized := None\<rparr>])"
proof -
  have h: "clicked_id (close_at 1 1) = Some close_button"
    "\<forall>j<1. clicked_id (close_at 1 j) \<noteq> Some close_button"
    by (simp_all add: close_at_clicked)
  show ?thesis
    using h main_consumes_inputs_in_order [OF h, of False] by (simp add: upt_conv_Cons close_at_clicked)
qed

theorem main_final_window_witness:
  "main True (close_at 0) = Some (run_frame TestApp_new initial_window (backend_view True initial_window (close_at 0 0))) \<and>
   reachable True TestApp_new (run_frame TestApp_new initial_window (backend_view True initial_window (close_at 0 0))) \<and>
   win_closed (run_frame TestApp_new initial_window (backend_view True initial_window (close_at 0 0)))"
proof -
  have m: "main True (close_at 0) =
      Some (run_frame TestApp_new initial_window (backend_view True initial_window (close_at 0 0)))"
    by (simp add: main_event_loop event_loop_frame event_loop_closed run_frame_closed_iff close_at_clicked
        initial_window_def)
  show ?thesis using m main_final_window [OF m] by blast
qed

end
