(* ===== verification/EguiInteraction.thy ===== *)
theory EguiInteraction
  imports FrameSpec
begin

text \<open>
  How egui turns the pointer's press and double click into the responses
  \<open>show\<close> reads (src/src/lib.rs, lines 114--135 register the regions, 139 and
  208--212 read \<open>drag_started()\<close> and \<open>double_clicked()\<close>).  egui is an
  immediate-mode library: the regions a frame registers with \<open>ui.interact\<close>
  become known only as the frame runs, so egui classifies the pointer events of a
  frame against the regions registered in the frame before.  The pointer belongs
  to the topmost (last registered) region that contains it and senses the event:
  drag for a press, click for a double click.  egui is not code of this
  repository; \<open>hit_test\<close> and \<open>classify_input\<close> model that contract as the
  spec's host input system describes it (regions tagged by an identifier,
  classification of drag and double-click events), abstracting from egui's
  drag threshold and double-click timing, which only decide in which frame the
  event is reported.  \<open>next_frame\<close> is the context of the following frame: the
  environment's raw input with the two decisions filled in, and a fresh output.

  The lemmas compose two frames of \<open>show\<close> through this classification: with the
  pointer at rest, a press or double click becomes exactly the command the zone
  under the pointer promises; a command is sent only for an event of the same frame
  on a region registered the frame before; and because the frame registers the
  resize region only while the pointer is already in the ring, a press in the first
  frame the pointer is in the ring starts no resize.
\<close>

record pointer_events =
  pressed :: bool
  double_click :: bool

fun hit_test :: "(sense \<Rightarrow> bool) \<Rightarrow> pos2 \<Rightarrow> (rect \<times> widget_id \<times> sense) list \<Rightarrow> widget_id option" where
  "hit_test want p [] = None"
| "hit_test want p ((r, i, s) # rs) =
     (case hit_test want p rs of
        Some j \<Rightarrow> Some j
      | None \<Rightarrow> if rect_contains r p \<and> want s then Some i else None)"

definition classify_input ::
  "(rect \<times> widget_id \<times> sense) list \<Rightarrow> pointer_events \<Rightarrow> egui_input \<Rightarrow> egui_input" where
  "classify_input prev ev inp =
     (let hit = (\<lambda>want. case interact_pos inp of Some p \<Rightarrow> hit_test want p prev | None \<Rightarrow> None)
      in inp\<lparr>drag_started_id := (if pressed ev then hit drag else None),
             double_clicked_id := (if double_click ev then hit click else None)\<rparr>)"

definition next_frame :: "custom_frame \<Rightarrow> ctx \<Rightarrow> pointer_events \<Rightarrow> egui_input \<Rightarrow> ctx" where
  "next_frame f c ev inp = \<lparr>ctx_in = classify_input (registered f c) ev inp, ctx_out = fresh_output\<rparr>"

subsection \<open>Lemmas\<close>

text \<open>A region found by the hit test was registered, contains the pointer and
  senses the event.\<close>

lemma hit_test_Some:
  "hit_test want p rs = Some i \<Longrightarrow> \<exists>r s. (r, i, s) \<in> set rs \<and> rect_contains r p \<and> want s"
  by (induction want p rs rule: hit_test.induct) (auto split: option.splits if_splits)

lemma classify_input_fields [simp]:
  "vp_maximized (classify_input prev ev inp) = vp_maximized inp"
  "clip_rect (classify_input prev ev inp) = clip_rect inp"
  "interact_pos (classify_input prev ev inp) = interact_pos inp"
  "clicked_id (classify_input prev ev inp) = clicked_id inp"
  by (simp_all add: classify_input_def Let_def)

lemma classify_input_ids:
  "interact_pos inp = Some p \<Longrightarrow>
   drag_started_id (classify_input prev ev inp) = (if pressed ev then hit_test drag p prev else None)"
  "interact_pos inp = Some p \<Longrightarrow>
   double_clicked_id (classify_input prev ev inp) = (if double_click ev then hit_test click p prev else None)"
  "interact_pos inp = None \<Longrightarrow> drag_started_id (classify_input prev ev inp) = None"
  "interact_pos inp = None \<Longrightarrow> double_clicked_id (classify_input prev ev inp) = None"
  by (simp_all add: classify_input_def Let_def)

text \<open>The frame's geometry reads only the maximized flag, the clip rectangle and the
  pointer of its input.\<close>

lemma geometry_of_input:
  assumes "vp_maximized (ctx_in c') = vp_maximized (ctx_in c)"
    and "clip_rect (ctx_in c') = clip_rect (ctx_in c)"
    and "interact_pos (ctx_in c') = interact_pos (ctx_in c)"
  shows "geometry_of f c' = geometry_of f c"
  using assms by (simp add: geometry_of_def is_maximized_of_def view_rect_of_def pointer_pos_def)

lemma next_frame_geometry:
  assumes "vp_maximized inp = vp_maximized (ctx_in c)" and "clip_rect inp = clip_rect (ctx_in c)"
    and "interact_pos inp = interact_pos (ctx_in c)"
  shows "geometry_of f (next_frame f c ev inp) = geometry_of f c"
  using assms by (intro geometry_of_input) (simp_all add: next_frame_def)

lemma next_frame_cmds:
  "emitted_cmds f (next_frame f c ev inp) =
     zone_cmds (classify_input (registered f c) ev inp) (is_maximized_of (next_frame f c ev inp))
       (zone_of (geometry_of f (next_frame f c ev inp)))"
  by (simp add: next_frame_def)

lemma sizebox_caption_ids: "sizebox_id \<noteq> caption_id"
  by (simp add: sizebox_id_def caption_id_def)

text \<open>What a classified event says: a press or double click of this frame, with a
  pointer, on a region of the previous frame.\<close>

lemma classify_input_hit:
  "drag_started_id (classify_input prev ev inp) = Some i \<Longrightarrow>
     pressed ev \<and> (\<exists>p. interact_pos inp = Some p \<and> hit_test drag p prev = Some i)"
  "double_clicked_id (classify_input prev ev inp) = Some i \<Longrightarrow>
     double_click ev \<and> (\<exists>p. interact_pos inp = Some p \<and> hit_test click p prev = Some i)"
  by (auto simp: classify_input_def Let_def split: option.splits if_splits)

lemma zone_cmds_need_event:
  "zone_cmds inp m z \<noteq> [] \<Longrightarrow> drag_started_id inp \<noteq> None \<or> double_clicked_id inp \<noteq> None"
  by (auto simp: zone_cmds_def split: zone.splits if_splits)

text \<open>Two frames of the default frame in the 320 by 120 viewport: the pointer rests
  at (21,60) in the west part of the ring, then egui reports a press.\<close>

lemma next_frame_example:
  "emitted_cmds CustomFrame_default
     (next_frame CustomFrame_default (sample_ctx (Some False) (Some (Pos2_new 21 60)) None None)
        \<lparr>pressed = True, double_click = False\<rparr>
        (ctx_in (sample_ctx (Some False) (Some (Pos2_new 21 60)) None None))) = [BeginResize West]"
  unfolding next_frame_cmds
  by (simp add: next_frame_def classify_input_def sample_ctx_def zone_eval geometry_eval
      CustomFrame_default_def Let_def sizebox_caption_ids)

subsection \<open>Claims about consecutive frames\<close>

text \<open>
  C30 (functional).  With the pointer at rest between two frames (same viewport,
  maximized state and pointer position), a press or double click that egui reports
  in the second frame makes it send exactly what the zone under the pointer
  promises: BeginResize in the ring's direction for a press in the resize ring,
  StartDrag for a press and Maximized (not maximized) for a double click in the
  caption, and nothing elsewhere.
\<close>

theorem press_at_rest_commands:
  assumes "vp_maximized inp = vp_maximized (ctx_in c)" and "clip_rect inp = clip_rect (ctx_in c)"
    and "interact_pos inp = Some p" and "interact_pos (ctx_in c) = Some p"
  shows "emitted_cmds f (next_frame f c ev inp) =
    (case zone_of (geometry_of f c) of
       NoZone \<Rightarrow> []
     | ResizeZone d \<Rightarrow> (if pressed ev then [BeginResize d] else [])
     | CaptionZone \<Rightarrow> (if pressed ev then [StartDrag] else []) @
                      (if double_click ev then [Maximized (\<not> is_maximized_of c)] else []))"
proof -
  have g: "geometry_of f (next_frame f c ev inp) = geometry_of f c"
    using assms by (intro next_frame_geometry) simp_all
  have m: "is_maximized_of (next_frame f c ev inp) = is_maximized_of c"
    using assms(1) by (simp add: next_frame_def is_maximized_of_def)
  have pos: "g_pos (geometry_of f c) = p"
    using assms(4) by (simp add: pointer_pos_def)
  have eq: "emitted_cmds f (next_frame f c ev inp) =
      zone_cmds (classify_input (registered f c) ev inp) (is_maximized_of c) (zone_of (geometry_of f c))"
    unfolding next_frame_cmds g m ..
  note cmds = zone_cmds_def zone_regions_def classify_input_ids(1,2) [OF assms(3)]
  show ?thesis
  proof (cases "zone_of (geometry_of f c)")
    case NoZone
    then show ?thesis unfolding eq by (simp add: cmds)
  next
    case (ResizeZone d)
    then have "rect_contains (g_view (geometry_of f c)) p"
      using pos by (auto simp: zone_of_cases in_sizebox_def)
    with ResizeZone show ?thesis unfolding eq by (auto simp: cmds sizebox_caption_ids)
  next
    case CaptionZone
    then have "rect_contains (g_cap (geometry_of f c)) p"
      using pos by (simp add: zone_of_cases)
    with CaptionZone show ?thesis unfolding eq by (simp add: cmds)
  qed
qed

text \<open>
  C31 (safety).  A frame sends BeginResize only if the frame before registered the
  resize region, i.e. the pointer was already in the resize ring of a non-maximized
  window then: a press in the first frame the pointer is in the ring starts no
  resize, whatever the zone of that frame.
\<close>

theorem press_needs_hovered_ring:
  assumes "\<forall>d. zone_of (geometry_of f c) \<noteq> ResizeZone d"
  shows "BeginResize d \<notin> set (emitted_cmds f (next_frame f c ev inp))"
proof
  define prev where "prev = registered f c"
  assume "BeginResize d \<in> set (emitted_cmds f (next_frame f c ev inp))"
  then have "BeginResize d \<in> set (zone_cmds (classify_input prev ev inp)
      (is_maximized_of (next_frame f c ev inp)) (zone_of (geometry_of f (next_frame f c ev inp))))"
    unfolding prev_def by (simp only: next_frame_cmds)
  then have "drag_started_id (classify_input prev ev inp) = Some sizebox_id"
    by (auto simp: zone_cmds_def split: zone.splits if_splits)
  then obtain p where "hit_test drag p prev = Some sizebox_id"
    by (blast dest: classify_input_hit(1))
  then obtain r s where "(r, sizebox_id, s) \<in> set (registered f c)"
    unfolding prev_def by (blast dest: hit_test_Some)
  with assms show False
    by (auto simp: zone_regions_def sizebox_caption_ids split: zone.splits)
qed

text \<open>
  C32 (safety).  The frame never sends a command speculatively: whenever it sends
  one, egui reported a press or a double click in that frame, with the pointer
  inside a region the frame registered in the frame before.
\<close>

theorem commands_only_on_events:
  assumes "emitted_cmds f (next_frame f c ev inp) \<noteq> []"
  shows "(pressed ev \<or> double_click ev) \<and>
         (\<exists>p r i s. interact_pos inp = Some p \<and> (r, i, s) \<in> set (registered f c) \<and> rect_contains r p)"
proof -
  define prev where "prev = registered f c"
  from assms have "zone_cmds (classify_input prev ev inp) (is_maximized_of (next_frame f c ev inp))
      (zone_of (geometry_of f (next_frame f c ev inp))) \<noteq> []"
    unfolding prev_def next_frame_cmds .
  then have "drag_started_id (classify_input prev ev inp) \<noteq> None \<or>
      double_clicked_id (classify_input prev ev inp) \<noteq> None"
    by (rule zone_cmds_need_event)
  then obtain p i want where "pressed ev \<or> double_click ev" and "interact_pos inp = Some p"
      and "hit_test want p prev = Some i"
    by (auto dest!: classify_input_hit)
  then show ?thesis
    unfolding prev_def by (blast dest: hit_test_Some)
qed

theorem press_at_rest_commands_witness:
  "emitted_cmds CustomFrame_default
     (next_frame CustomFrame_default (sample_ctx (Some False) (Some (Pos2_new 21 60)) None None)
        \<lparr>pressed = True, double_click = False\<rparr>
        (ctx_in (sample_ctx (Some False) (Some (Pos2_new 21 60)) None None))) = [BeginResize West]"
proof -
  let ?c = "sample_ctx (Some False) (Some (Pos2_new 21 60)) None None"
  have h: "vp_maximized (ctx_in ?c) = vp_maximized (ctx_in ?c)" "clip_rect (ctx_in ?c) = clip_rect (ctx_in ?c)"
    "interact_pos (ctx_in ?c) = Some (Pos2_new 21 60)" "interact_pos (ctx_in ?c) = Some (Pos2_new 21 60)"
    by (simp_all add: sample_ctx_def)
  have z: "zone_of (geometry_of CustomFrame_default ?c) = ResizeZone West"
    by (simp add: sample_ctx_def zone_eval geometry_eval CustomFrame_default_def)
  show ?thesis
    unfolding press_at_rest_commands [OF h] z by simp
qed

theorem press_needs_hovered_ring_witness:
  "zone_of (geometry_of CustomFrame_default
     (next_frame CustomFrame_default (sample_ctx (Some False) (Some (Pos2_new 160 80)) None None)
        \<lparr>pressed = True, double_click = False\<rparr>
        (ctx_in (sample_ctx (Some False) (Some (Pos2_new 160 98)) None None)))) = ResizeZone South \<and>
   BeginResize South \<notin> set (emitted_cmds CustomFrame_default
     (next_frame CustomFrame_default (sample_ctx (Some False) (Some (Pos2_new 160 80)) None None)
        \<lparr>pressed = True, double_click = False\<rparr>
        (ctx_in (sample_ctx (Some False) (Some (Pos2_new 160 98)) None None))))"
proof -
  let ?c = "sample_ctx (Some False) (Some (Pos2_new 160 80)) None None"
  have z1: "zone_of (geometry_of CustomFrame_default ?c) = NoZone"
    by (simp add: sample_ctx_def zone_eval geometry_eval CustomFrame_default_def f32_MAX_def
        rect_contains_translate pos2_sub_def)
  then have h: "\<forall>d. zone_of (geometry_of CustomFrame_default ?c) \<noteq> ResizeZone d" by simp
  have z2: "zone_of (geometry_of CustomFrame_default
     (next_frame CustomFrame_default ?c \<lparr>pressed = True, double_click = False\<rparr>
        (ctx_in (sample_ctx (Some False) (Some (Pos2_new 160 98)) None None)))) = ResizeZone South"
    by (simp add: next_frame_def sample_ctx_def zone_eval geometry_eval CustomFrame_default_def)
  show ?thesis using z2 press_needs_hovered_ring [OF h] by blast
qed

theorem commands_only_on_events_witness:
  "pressed \<lparr>pressed = True, double_click = False\<rparr> \<and>
   (\<exists>p r i s. interact_pos (ctx_in (sample_ctx (Some False) (Some (Pos2_new 21 60)) None None)) = Some p \<and>
     (r, i, s) \<in> set (registered CustomFrame_default (sample_ctx (Some False) (Some (Pos2_new 21 60)) None None)) \<and>
     rect_contains r p)"
proof -
  have h: "emitted_cmds CustomFrame_default
     (next_frame CustomFrame_default (sample_ctx (Some False) (Some (Pos2_new 21 60)) None None)
        \<lparr>pressed = True, double_click = False\<rparr>
        (ctx_in (sample_ctx (Some False) (Some (Pos2_new 21 60)) None None))) \<noteq> []"
    unfolding next_frame_example by simp
  show ?thesis using commands_only_on_events [OF h] by simp
qed

end
