(* ===== verification/Spec2Isabelle.thy ===== *)
theory Spec2Isabelle
  imports EventLoop EguiInteraction
begin

text \<open>
  \<^bold>\<open>A verified model of egui_custom_frame.\<close>

  \<^emph>\<open>The program.\<close>  The crate (src/src/lib.rs) draws a borderless window's
  frame in software.  Its one type, \<open>CustomFrame\<close>, holds the appearance
  (resize margin \<open>sizebox\<close>, \<open>caption\<close> rectangle, inner margin, rounding,
  shadow) and is configured by value-returning builder methods.  Its one operation,
  \<open>show\<close>, runs once per frame: it reads the viewport's maximized flag, paints
  a rounded, shadowed central panel (both suppressed when maximized), computes the
  view rectangle (the panel minus the shadow gutter), the inner rectangle (the view
  minus the resize margin) and the caption rectangle (the configured caption moved
  by the gutter and cut to the inner rectangle), registers a drag region over the
  view when the pointer is in the resize ring of a non-maximized window and a
  click-and-drag region over the caption when the pointer is in it, turns a drag on
  the ring into a resize cursor and \<open>BeginResize\<close> in one of eight directions
  and a drag or double click on the caption into \<open>StartDrag\<close> or
  \<open>Maximized\<close>, and finally runs the caller's content.  The example
  (src/examples/custom_frame.rs) makes the whole window a caption and adds a Close
  button.  egui and the windowing backend are collaborators: \<open>show\<close> reads
  their state and sends them commands.

  \<^emph>\<open>The theories.\<close>
  \<^item> \<open>Prelude\<close>: \<open>f32\<close> as \<open>real\<close>, \<open>f32::MIN\<close> and \<open>f32::MAX\<close>
    with their IEEE values, the lemma collections.
  \<^item> \<open>Geometry\<close>: egui's \<open>Pos2\<close>, \<open>Vec2\<close>, \<open>Rect\<close>, \<open>Margin\<close> as
    records and the rectangle operations \<open>show\<close> calls, with egui's bodies;
    corner equations and membership laws (intersection, translation, shrinking,
    margin subtraction).
  \<^item> \<open>Style\<close>: \<open>Color32\<close> (bytes as \<open>8 word\<close>), \<open>Rounding\<close>,
    \<open>Shadow\<close> and its painted extent \<open>Shadow_margin\<close>, \<open>Stroke\<close>,
    egui's \<open>Frame\<close>; \<open>CustomFrame\<close>
    (lib.rs 32--47), its builders \<open>with_sizebox\<close>, \<open>with_caption\<close>,
    \<open>with_rounding\<close>, \<open>with_shadow\<close> (53--76) and \<open>CustomFrame_default\<close>
    (224--238).
  \<^item> \<open>EguiContext\<close>: the interface to egui as explicit state passing.  A
    context \<open>ctx\<close> has an input part (maximized flag, theme fill, clip
    rectangle, pointer position, which widget a drag started on or was
    double-clicked, which button was clicked) that the frame never writes, and an
    output part (cursor icon, viewport command queue, registered regions, painted
    panels, painted widgets) that \<open>set_cursor_icon\<close>, \<open>send_viewport_cmd\<close>,
    \<open>ui_interact\<close>, \<open>central_panel_show\<close>, \<open>ui_heading\<close> and
    \<open>ui_button\<close> extend.
  \<^item> \<open>FrameShow\<close>: \<open>CustomFrame::show\<close> (79--221), one definition per step
    in the source's order (\<open>is_maximized_of\<close>, \<open>shadow_width\<close>,
    \<open>panel_frame\<close>, \<open>view_rect_of\<close>, \<open>sizebox_inner_of\<close>,
    \<open>caption_rect_of\<close>, \<open>pointer_pos\<close>, \<open>sizebox_response_of\<close>,
    \<open>caption_response_of\<close>, \<open>resize_zone\<close>, \<open>produce_resizing\<close>,
    \<open>produce_caption\<close>), the panel closure \<open>frame_body\<close> and
    \<open>show_custom_frame\<close>; \<open>frame_effects\<close> is \<open>show\<close> with an empty
    content callback.
  \<^item> \<open>FrameSpec\<close>: the abstract specification of a frame (the pointer's
    \<open>zone\<close> from a declarative compass classification, and per zone the
    region, cursor and commands) and the refinement theorem that the code's
    context after a frame is the specification's (C1); from it, the claims about
    one frame (C2--C13, C20, C21, C22, C27), and an evaluated instance of a
    negative sizebox for the finding at line 101.
  \<^item> \<open>ExampleApp\<close>: \<open>TestApp\<close>, \<open>new\<close>, \<open>clear_color\<close>, \<open>update\<close>
    and its content closure (heading, Close button), the native options; the
    whole-window caption and the Close button (C14, C15), and the app's rectangles
    in closed integer form (C28).
  \<^item> \<open>Window\<close>: the application over many frames against the host window: a
    backend that applies \<open>Maximized\<close> and \<open>Close\<close>, an \<open>inductive\<close>
    step relation \<open>app_step\<close> with any environment input, \<open>reachable\<close>
    states, invariants by rule induction (C16, C17, C23), liveness of closing
    (C18), the run that breaks the first invariant when the backend does not
    report the maximized state (C19), and the refinement of one frame of the
    application against an abstract window step computed from the frame's zone
    (C29).
  \<^item> \<open>EventLoop\<close>: the example's \<open>main\<close> (custom_frame.rs, lines 39--58)
    and the loop of \<open>eframe::run_native\<close> it calls, as a
    \<open>partial_function (option)\<close> \<open>event_loop\<close> that runs frames over an
    input stream until the window is closed: main returns exactly when some
    frame clicks Close (C24), it runs the frames up to the first such click in
    order (C25), and the window it returns is reachable and satisfies the
    invariants (C26).
  \<^item> \<open>EguiInteraction\<close>: egui's classification of a press or double click
    against the regions the previous frame registered (\<open>hit_test\<close>, the topmost
    region that contains the pointer and senses the event;
    \<open>classify_input\<close>; \<open>next_frame\<close>), and two frames of \<open>show\<close> composed
    through it: a press at rest gives the zone's command (C30), a press in the
    first frame in the ring starts no resize (C31), and no command is sent without
    an event of the same frame on a region of the frame before (C32).
  \<^item> This theory: the spec's worked 320 by 120 scenario evaluated across the
    components (\<open>spec_scenario_320x120\<close>), and the whole program with egui's
    classification, \<open>egui_run\<close>: frame after frame of the example, each frame's
    events hit-tested against the regions the application registered the frame
    before and the maximized state reported by the backend.  In any such run a
    frame sends a command other than Close only for a press or double click among
    its own events (C33); \<open>egui_run_example\<close> evaluates a hover-then-press run
    to BeginResize West.

  \<^emph>\<open>How the proofs are built.\<close>  The refinement lemma is proved once, by
  splitting on the three zones (resize ring, caption, nothing) and the response
  lemmas of each step; every per-frame claim is a few lines over it and the zone
  lemmas.  The window invariants are rule inductions over \<open>reachable\<close>, each
  step discharged by the per-frame lemmas that a frame emits \<open>BeginResize\<close>
  only when not maximized and \<open>Maximized\<close> only as a toggle.  The event
  loop's total correctness is an induction on the distance to the first Close
  click; its partial correctness (a returned window is closed, a Close click came
  first, the window is reachable) is fixpoint induction (\<open>event_loop.raw_induct\<close>).
  The two-frame claims go through the hit test's soundness (a found region was
  registered, contains the pointer and senses the event) and the fact that the
  frame's geometry reads only the maximized flag, clip rectangle and pointer; the
  whole-program claim is a computation induction on \<open>egui_run\<close> that tracks
  the log entry of each frame together with that frame's events.  Concrete
  instances (the witnesses) are evaluated by \<open>simp\<close> through the refinement
  lemma, with the bundles \<open>zone_eval\<close> and \<open>geometry_eval\<close>.

  \<^emph>\<open>Bounds and fuel.\<close>  The crate's code has no loops or recursion.  The one
  loop of the program is eframe's frame loop, which runs until the user closes the
  window and so need not end: it is a \<open>partial_function (option)\<close> with no
  fuel, \<open>None\<close> being "never returns", and C24 states exactly when it returns
  (with the \<open>Some\<close> proved, not assumed).  Every other definition is total
  and executable.  Rust's \<open>f32\<close>
  is modelled by exact reals: the model does not round (\<open>f32::MAX + 20\<close> is
  not \<open>f32::MAX\<close>), which changes no comparison the code makes on a viewport of
  representable size, and NaN is not modelled.  Claims that need a bound on the
  viewport (C14) assume its width and height are at most \<open>f32::MAX\<close>.  C28
  shows that for the example in a viewport of whole points up to \<open>2^23\<close>
  every rectangle the frame computes has integer corners of that size, which f32
  represents exactly, so there the model and f32 agree.  The
  one bound the code relies on, that the outer margin holds the shadow, is stated
  exactly (C22): it holds when the shadow's offset is at most half its blur.

  \<^emph>\<open>Not modelled.\<close>  egui's layout, painting and tessellation (the painted
  panel is recorded, not rasterised), the timing side of its press history (the
  drag threshold and the double-click interval, which only decide in which frame
  egui reports an event: the events of a frame are an input, their attribution to a
  region is modelled), the other variants
  of \<open>CursorIcon\<close> and \<open>ViewportCommand\<close>, the layout of the
  example's widgets (the heading and the button are recorded, not placed),
  \<open>run_native\<close>'s start-up (window creation from the native options, its
  errors) and anything of eframe beyond one call of \<open>update\<close> per frame, the
  usage example in the crate's doc comments (a doctest: the default frame around
  one label, which adds nothing to what C10 and the per-frame claims say), and the
  operating system's move and
  resize loops started by \<open>StartDrag\<close> and \<open>BeginResize\<close> (the window
  model has no geometry, so the viewport's size is an input of each frame).
\<close>

text \<open>The whole program with egui's classification: frame after frame of the
  example application, each frame's press and double click hit-tested against the
  regions the application registered in the frame before, the maximized state
  reported by the backend, until the window is closed.\<close>

fun egui_run ::
  "test_app \<Rightarrow> (rect \<times> widget_id \<times> sense) list \<Rightarrow> window \<Rightarrow> (egui_input \<times> pointer_events) list \<Rightarrow> window" where
  "egui_run app prev w [] = w"
| "egui_run app prev w ((inp, ev) # fs) =
     (if win_closed w then w
      else let inp' = backend_view True w (classify_input prev ev inp)
           in egui_run app (interactions (ctx_out (app_update app \<lparr>ctx_in = inp', ctx_out = fresh_output\<rparr>)))
                (run_frame app w inp') fs)"

text \<open>
  The spec's worked scenario (section 8), evaluated: with the default frame in a 320 by 120
  viewport, not maximized, the shadow gutter is 20; a pointer at (1,1) is outside the
  view and the frame only paints; a pointer at (25,25) is in the caption, whose
  computed rectangle is (24,24)--(296,64), and only the caption region is registered;
  a pointer at (21,60) is left of the inner rectangle, sets the west resize cursor and,
  on a drag start, sends BeginResize West.
\<close>

lemma spec_scenario_320x120:
  "shadow_width CustomFrame_default False = 20 \<and>
   frame_effects CustomFrame_default (sample_ctx (Some False) (Some (Pos2_new 1 1)) (Some sizebox_id) None) =
     panel_painted CustomFrame_default (sample_ctx (Some False) (Some (Pos2_new 1 1)) (Some sizebox_id) None) \<and>
   registered CustomFrame_default (sample_ctx (Some False) (Some (Pos2_new 25 25)) None None) =
     [(Rect_from_min_max (Pos2_new 24 24) (Pos2_new 296 64), caption_id, Sense_click_and_drag)] \<and>
   cursor_icon (ctx_out (frame_effects CustomFrame_default
     (sample_ctx (Some False) (Some (Pos2_new 21 60)) (Some sizebox_id) None))) = ResizeWest \<and>
   emitted_cmds CustomFrame_default (sample_ctx (Some False) (Some (Pos2_new 21 60)) (Some sizebox_id) None) =
     [BeginResize West]"
proof (intro conjI)
  show "shadow_width CustomFrame_default False = 20"
    by (simp add: CustomFrame_default_def)
  show "frame_effects CustomFrame_default (sample_ctx (Some False) (Some (Pos2_new 1 1)) (Some sizebox_id) None) =
     panel_painted CustomFrame_default (sample_ctx (Some False) (Some (Pos2_new 1 1)) (Some sizebox_id) None)"
    by (rule no_zone_panel_only)
      (simp add: sample_ctx_def zone_eval geometry_eval CustomFrame_default_def)
  show "registered CustomFrame_default (sample_ctx (Some False) (Some (Pos2_new 25 25)) None None) =
     [(Rect_from_min_max (Pos2_new 24 24) (Pos2_new 296 64), caption_id, Sense_click_and_drag)]"
    by (simp add: sample_ctx_def zone_eval geometry_eval CustomFrame_default_def f32_MAX_def
        rect_intersect_def pos2_max_def pos2_min_def rect_translate_def rect_size_def
        Rect_from_min_max_def rect_sub_margin_def pos2_add_def pos2_sub_def pos2_diff_def Vec2_new_def)
  show "cursor_icon (ctx_out (frame_effects CustomFrame_default
     (sample_ctx (Some False) (Some (Pos2_new 21 60)) (Some sizebox_id) None))) = ResizeWest"
    by (simp add: sample_ctx_def zone_eval geometry_eval CustomFrame_default_def)
  show "emitted_cmds CustomFrame_default (sample_ctx (Some False) (Some (Pos2_new 21 60)) (Some sizebox_id) None) =
     [BeginResize West]"
    by (simp add: sample_ctx_def zone_eval geometry_eval CustomFrame_default_def)
qed

text \<open>The regions the application registers in a frame are the frame's.\<close>

lemma app_update_interactions:
  "interactions (ctx_out (app_update self c)) = interactions (ctx_out c) @ registered (app_frame self) c"
  by (simp add: app_update_frame_then_content registered_def frame_effects_zone [of _ c] Let_def)

text \<open>What one frame of such a run can send: a command other than Close needs a
  press or a double click among the frame's own events.  The frame's commands need
  a drag-start or double-click decision (\<open>zone_cmds_need_event\<close>), the backend's
  report does not touch those decisions, and egui makes one only for an event of
  the frame (\<open>classify_input_hit\<close>).\<close>

lemma backend_view_ids [simp]:
  "drag_started_id (backend_view r w inp) = drag_started_id inp"
  "double_clicked_id (backend_view r w inp) = double_clicked_id inp"
  by (simp_all add: backend_view_def)

lemma run_frame_cmd_needs_event:
  assumes "c \<in> set (frame_cmds app (backend_view True w (classify_input prev ev inp)))" and "c \<noteq> Close"
  shows "pressed ev \<or> double_click ev"
proof -
  let ?inp = "backend_view True w (classify_input prev ev inp)"
  from assms have "emitted_cmds (app_frame app) \<lparr>ctx_in = ?inp, ctx_out = fresh_output\<rparr> \<noteq> []"
    by (auto simp: frame_cmds_eq simp del: frame_effects_observe split: if_splits)
  then have "zone_cmds ?inp (is_maximized_of \<lparr>ctx_in = ?inp, ctx_out = fresh_output\<rparr>)
      (zone_of (geometry_of (app_frame app) \<lparr>ctx_in = ?inp, ctx_out = fresh_output\<rparr>)) \<noteq> []"
    by simp
  then have "drag_started_id ?inp \<noteq> None \<or> double_clicked_id ?inp \<noteq> None"
    by (rule zone_cmds_need_event)
  then show ?thesis
    by (auto dest: classify_input_hit)
qed

text \<open>The run's log grows by one entry per frame it runs, and the entry of the
  \<open>i\<close>-th frame run sends a command other than Close only if the \<open>i\<close>-th events
  hold a press or a double click.\<close>

lemma egui_run_log:
  "\<exists>new. win_log (egui_run app prev w fs) = win_log w @ new \<and> length new \<le> length fs \<and>
     (\<forall>i < length new. \<forall>c \<in> set (log_cmds (new ! i)). c \<noteq> Close \<longrightarrow>
        pressed (snd (fs ! i)) \<or> double_click (snd (fs ! i)))"
proof (induction app prev w fs rule: egui_run.induct)
  case (1 app prev w)
  show ?case by simp
next
  case (2 app prev w inp ev fs)
  show ?case
  proof (cases "win_closed w")
    case True
    then show ?thesis by simp
  next
    case False
    let ?inp' = "backend_view True w (classify_input prev ev inp)"
    let ?prev' = "interactions (ctx_out (app_update app \<lparr>ctx_in = ?inp', ctx_out = fresh_output\<rparr>))"
    let ?l = "\<lparr>log_max = win_maximized w, log_input = ?inp', log_cmds = frame_cmds app ?inp'\<rparr>"
    from False "2.IH" obtain new where
      run: "win_log (egui_run app ?prev' (run_frame app w ?inp') fs) = win_log (run_frame app w ?inp') @ new"
      and len: "length new \<le> length fs"
      and ev: "\<forall>i < length new. \<forall>c \<in> set (log_cmds (new ! i)). c \<noteq> Close \<longrightarrow>
        pressed (snd (fs ! i)) \<or> double_click (snd (fs ! i))"
      by (auto simp: Let_def)
    have "\<forall>i < length (?l # new). \<forall>c \<in> set (log_cmds ((?l # new) ! i)). c \<noteq> Close \<longrightarrow>
        pressed (snd (((inp, ev) # fs) ! i)) \<or> double_click (snd (((inp, ev) # fs) ! i))"
    proof (intro allI impI ballI)
      fix i c
      assume "i < length (?l # new)" and c: "c \<in> set (log_cmds ((?l # new) ! i))" and "c \<noteq> Close"
      then show "pressed (snd (((inp, ev) # fs) ! i)) \<or> double_click (snd (((inp, ev) # fs) ! i))"
        using ev run_frame_cmd_needs_event [of c app w prev ev inp] by (cases i) auto
    qed
    with False run len show ?thesis
      by (intro exI [of _ "?l # new"]) (simp add: run_frame_log Let_def)
  qed
qed

text \<open>The composition does what C30 promises on a run: the pointer rests at
  (21,60) in the west part of the ring for one frame, then egui reports a press, and
  the second frame of the example sends BeginResize West.\<close>

lemma egui_run_example:
  "map log_cmds (win_log (egui_run TestApp_new [] initial_window
     [(ctx_in (sample_ctx None (Some (Pos2_new 21 60)) None None), \<lparr>pressed = False, double_click = False\<rparr>),
      (ctx_in (sample_ctx None (Some (Pos2_new 21 60)) None None), \<lparr>pressed = True, double_click = False\<rparr>)])) =
   [[], [BeginResize West]]"
  by (simp add: run_frame_def frame_cmds_eq app_update_interactions initial_window_def apply_cmd_def
      backend_view_def classify_input_def sample_ctx_def zone_eval geometry_eval CustomFrame_default_def
      f32_MAX_def sizebox_caption_ids close_button_def fresh_output_def Let_def)

text \<open>
  C33 (safety).  The whole program never acts speculatively: in any run of the
  example, with egui hit-testing each frame's events against the regions
  registered the frame before, a frame whose log entry holds a command other than
  Close had a press or a double click among that frame's events.
\<close>

theorem egui_run_commands_need_events:
  assumes "i < length (win_log (egui_run app [] initial_window fs))"
    and "c \<in> set (log_cmds (win_log (egui_run app [] initial_window fs) ! i))" and "c \<noteq> Close"
  shows "pressed (snd (fs ! i)) \<or> double_click (snd (fs ! i))"
proof -
  obtain new where "win_log (egui_run app [] initial_window fs) = new"
    and "\<forall>i < length new. \<forall>c \<in> set (log_cmds (new ! i)). c \<noteq> Close \<longrightarrow>
        pressed (snd (fs ! i)) \<or> double_click (snd (fs ! i))"
    using egui_run_log [of app "[]" initial_window fs] by (auto simp: initial_window_def)
  with assms show ?thesis by blast
qed

theorem egui_run_commands_need_events_witness:
  "pressed (snd ([(ctx_in (sample_ctx None (Some (Pos2_new 21 60)) None None), \<lparr>pressed = False, double_click = False\<rparr>),
      (ctx_in (sample_ctx None (Some (Pos2_new 21 60)) None None), \<lparr>pressed = True, double_click = False\<rparr>)] ! 1)) \<or>
   double_click (snd ([(ctx_in (sample_ctx None (Some (Pos2_new 21 60)) None None), \<lparr>pressed = False, double_click = False\<rparr>),
      (ctx_in (sample_ctx None (Some (Pos2_new 21 60)) None None), \<lparr>pressed = True, double_click = False\<rparr>)] ! 1))"
proof -
  let ?fs = "[(ctx_in (sample_ctx None (Some (Pos2_new 21 60)) None None), \<lparr>pressed = False, double_click = False\<rparr>),
      (ctx_in (sample_ctx None (Some (Pos2_new 21 60)) None None), \<lparr>pressed = True, double_click = False\<rparr>)]"
  have m: "map log_cmds (win_log (egui_run TestApp_new [] initial_window ?fs)) = [[], [BeginResize West]]"
    by (rule egui_run_example)
  then obtain l0 l1 where L: "win_log (egui_run TestApp_new [] initial_window ?fs) = [l0, l1]"
      and c: "log_cmds l1 = [BeginResize West]"
    by (auto simp: map_eq_Cons_conv)
  have h: "1 < length (win_log (egui_run TestApp_new [] initial_window ?fs))"
    "BeginResize West \<in> set (log_cmds (win_log (egui_run TestApp_new [] initial_window ?fs) ! 1))"
    "BeginResize West \<noteq> Close"
    unfolding L by (simp_all add: c)
  show ?thesis using egui_run_commands_need_events [OF h] .
qed

end
